theory Spec2Isabelle
  imports Complex_Main "HOL-Library.Word" "HOL-Library.Extended_Nat"
begin

section \<open>Scalars\<close>

text \<open>
  \<^verbatim>\<open>solveQP\<close> and \<^verbatim>\<open>polishQP\<close> are templates over the problem's \<^verbatim>\<open>Scalar\<close> type
  (\<^verbatim>\<open>float\<close> or \<^verbatim>\<open>double\<close>). The embedding is polymorphic in a type \<open>'s\<close> that carries the
  operations the code uses (\<open>0\<close>, \<open>1\<close>, \<open>+\<close>, \<open>-\<close>, \<open>*\<close>, \<open>/\<close>, \<open>abs\<close>, \<open><\<close>, \<open>\<le>\<close> and the
  constant \<open>\<infinity>\<close> for \<^verbatim>\<open>std::numeric_limits<Scalar>::infinity()\<close>) and assumes no law about
  them: no associativity, no rounding model, no order axioms. Every theorem therefore holds
  for whatever the floating-point unit computes. The fields of \<^verbatim>\<open>SolverParams\<close> that the
  source declares as \<^verbatim>\<open>float\<close> and converts on use are scalars of the same type here.

  \<^verbatim>\<open>std::max(a, b)\<close> is \<^verbatim>\<open>(a < b) ? b : a\<close> and \<^verbatim>\<open>std::min(a, b)\<close> is
  \<^verbatim>\<open>(b < a) ? b : a\<close>; without order laws they are not HOL's \<open>max\<close> and \<open>min\<close>.
\<close>

definition std_max :: "'s::ord \<Rightarrow> 's \<Rightarrow> 's" where
  "std_max a b = (if a < b then b else a)"

definition std_min :: "'s::ord \<Rightarrow> 's \<Rightarrow> 's" where
  "std_min a b = (if b < a then b else a)"

section \<open>Eigen vectors and matrices\<close>

text \<open>
  A dynamic-size Eigen vector is a list; \<^verbatim>\<open>v(i)\<close> is \<open>v ! i\<close>. The operations below follow
  Eigen's documented meaning. A reduction runs from the first coefficient on; \<^verbatim>\<open>minCoeff\<close>
  and \<^verbatim>\<open>maxCoeff\<close> of an empty vector fail Eigen's assertion "you are using an empty
  matrix" (undefined behaviour when assertions are compiled out), which is the value \<open>None\<close>;
  \<^verbatim>\<open>sum\<close>, \<^verbatim>\<open>dot\<close> and \<^verbatim>\<open>lpNorm<Infinity>\<close> of an empty vector are zero.
\<close>

definition vec_add :: "'s::plus list \<Rightarrow> 's list \<Rightarrow> 's list" where
  "vec_add a b = map2 (+) a b"

definition vec_sub :: "'s::minus list \<Rightarrow> 's list \<Rightarrow> 's list" where
  "vec_sub a b = map2 (-) a b"

definition scal_mul :: "'s::times \<Rightarrow> 's list \<Rightarrow> 's list" where
  "scal_mul c v = map (\<lambda>a. c * a) v"

definition vec_div :: "'s::inverse list \<Rightarrow> 's \<Rightarrow> 's list" where
  "vec_div v c = map (\<lambda>a. a / c) v"

definition cwiseMax :: "'s::ord list \<Rightarrow> 's list \<Rightarrow> 's list" where
  "cwiseMax a b = map2 std_max a b"

definition cwiseMin :: "'s::ord list \<Rightarrow> 's list \<Rightarrow> 's list" where
  "cwiseMin a b = map2 std_min a b"

definition head :: "nat \<Rightarrow> 's list \<Rightarrow> 's list" where
  "head n v = take n v"

definition tail :: "nat \<Rightarrow> 's list \<Rightarrow> 's list" where
  "tail n v = drop (length v - n) v"

definition minCoeff :: "'s::ord list \<Rightarrow> 's option" where
  "minCoeff v = (case v of [] \<Rightarrow> None | a # as \<Rightarrow> Some (foldl std_min a as))"

definition maxCoeff :: "'s::ord list \<Rightarrow> 's option" where
  "maxCoeff v = (case v of [] \<Rightarrow> None | a # as \<Rightarrow> Some (foldl std_max a as))"

definition sum_coeffs :: "'s::{zero,plus} list \<Rightarrow> 's" where
  "sum_coeffs v = (case v of [] \<Rightarrow> 0 | a # as \<Rightarrow> foldl (+) a as)"

definition dot :: "'s::{zero,plus,times} list \<Rightarrow> 's list \<Rightarrow> 's" where
  "dot a b = sum_coeffs (map2 (*) a b)"

text \<open>The lambda \<^verbatim>\<open>norm\<close> of \<^verbatim>\<open>solveQP\<close>: \<^verbatim>\<open>t.lpNorm<Eigen::Infinity>()\<close>.\<close>

definition norm_inf :: "'s::{zero,abs,ord} list \<Rightarrow> 's" where
  "norm_inf v = (case map abs v of [] \<Rightarrow> 0 | a # as \<Rightarrow> foldl std_max a as)"

text \<open>
  A dense matrix has its two dimensions and its coefficients \<^verbatim>\<open>M(i, j)\<close>; a coefficient
  that the code never writes (Eigen does not initialise storage) is \<open>undefined\<close>.
\<close>

record 's Matrix =
  rows :: nat
  cols :: nat
  coeff :: "nat \<Rightarrow> nat \<Rightarrow> 's"

definition mat_vec :: "'s::{zero,plus,times} Matrix \<Rightarrow> 's list \<Rightarrow> 's list" where
  "mat_vec M v =
     map (\<lambda>i. sum_coeffs (map (\<lambda>j. coeff M i j * v ! j) [0..<cols M])) [0..<rows M]"

definition mat_trans_vec :: "'s::{zero,plus,times} Matrix \<Rightarrow> 's list \<Rightarrow> 's list" where
  "mat_trans_vec M v =
     map (\<lambda>j. sum_coeffs (map (\<lambda>i. coeff M i j * v ! i) [0..<rows M])) [0..<cols M]"

text \<open>\<^verbatim>\<open>H.selfadjointView<Eigen::Upper>() * t\<close>: only the upper triangle of \<open>H\<close> is read.\<close>

definition selfadjoint_upper_vec :: "'s::{zero,plus,times} Matrix \<Rightarrow> 's list \<Rightarrow> 's list" where
  "selfadjoint_upper_vec M v =
     map (\<lambda>i. sum_coeffs
            (map (\<lambda>j. (if i \<le> j then coeff M i j else coeff M j i) * v ! j) [0..<cols M]))
       [0..<rows M]"

section \<open>The data model of qp.hpp\<close>

datatype ExitCode =
  Optimal | PolishFailed | PrimalInfeasible | DualInfeasible | MaxIterations | Unknown

record 's Solution =
  code :: ExitCode
  primal :: "'s list"
  dual :: "'s list"

text \<open>
  \<^verbatim>\<open>max_iter\<close>, \<^verbatim>\<open>stop_check_iter\<close> and \<^verbatim>\<open>polish_iter\<close> are \<^verbatim>\<open>uint64_t\<close>.
\<close>

record 's SolverParams =
  alpha :: 's
  rho :: 's
  sigma :: 's
  eps_abs :: 's
  eps_rel :: 's
  eps_primal_inf :: 's
  eps_dual_inf :: 's
  max_iter :: "64 word"
  stop_check_iter :: "64 word"
  polish :: bool
  polish_iter :: "64 word"
  delta :: 's

text \<open>
  What the model reports where the C++ has no defined result: a reduction over an empty
  vector, and the remainder of a division by zero.
\<close>

datatype fault = Empty_reduction | Remainder_by_zero

text \<open>The outcome of one pass through the body of the ADMM loop.\<close>

datatype 's iteration = Return "'s Solution" | Fault fault | Commit "'s list" "'s list" "'s list"

section \<open>The LDLT facade (internal/ldlt_lapack.hpp)\<close>

text \<open>
  \<^verbatim>\<open>LDLTLapack\<close> calls LAPACK's \<^verbatim>\<open>xSYSVX\<close>, which is not part of the repository. It is a
  parameter \<open>sysvx\<close> of the model: for a matrix (of which LAPACK reads the upper triangle,
  \<^verbatim>\<open>UPLO = 'U'\<close>) it gives the status \<^verbatim>\<open>info\<close> and, for a right-hand side \<open>b\<close>, the
  coefficient \<open>i\<close> that the routine writes to \<^verbatim>\<open>x\<close>. \<^verbatim>\<open>solve\<close> returns a vector of
  \<^verbatim>\<open>n_\<close> coefficients whatever the routine does. The members \<^verbatim>\<open>n_\<close> and \<^verbatim>\<open>info_\<close> are
  \<open>ldlt_n\<close> and \<open>ldlt_info\<close> (a HOL name cannot end in an underscore).
\<close>

type_synonym 's sysvx = "'s Matrix \<Rightarrow> int \<times> ('s list \<Rightarrow> nat \<Rightarrow> 's)"

record 's LDLTLapack =
  ldlt_n :: nat
  ldlt_info :: int
  ldlt_x :: "'s list \<Rightarrow> nat \<Rightarrow> 's"

definition LDLTLapack_init :: "'s sysvx \<Rightarrow> 's Matrix \<Rightarrow> 's LDLTLapack" where
  "LDLTLapack_init sysvx M = \<lparr>ldlt_n = cols M, ldlt_info = fst (sysvx M), ldlt_x = snd (sysvx M)\<rparr>"

definition info :: "'s LDLTLapack \<Rightarrow> int" where
  "info ldlt = ldlt_info ldlt"

definition solve :: "'s LDLTLapack \<Rightarrow> 's list \<Rightarrow> 's list" where
  "solve ldlt b = map (ldlt_x ldlt b) [0..<ldlt_n ldlt]"

text \<open>
  The dense problem \<^verbatim>\<open>QuadraticProgram<M, N, Scalar>\<close>, with dynamic sizes. The record comes
  last among the types because its fields keep the one-letter names of the source.
\<close>

record 's QuadraticProgram =
  P :: "'s Matrix"
  q :: "'s list"
  A :: "'s Matrix"
  l :: "'s list"
  u :: "'s list"

section \<open>polishQP\<close>

text \<open>
  The dense instance of the template. A loop \<^verbatim>\<open>for (idx = 0; idx < m; ++idx)\<close> over the
  constraints is a \<open>fold\<close> over \<open>[0..<m]\<close>; a dense problem has fewer than \<open>2^32\<close> rows and
  columns (its \<open>k \<times> k\<close> system matrix is allocated), so the \<^verbatim>\<open>unsigned\<close> counters of those
  loops do not wrap.

  Lines 419 to 423 count the constraints with a negative and with a positive dual.
\<close>

definition count_active :: "'s::{zero,ord} list \<Rightarrow> nat \<Rightarrow> nat \<times> nat" where
  "count_active d m =
     fold (\<lambda>idx (nl, nu). (if d ! idx < 0 then nl + 1 else nl, if d ! idx > 0 then nu + 1 else nu))
       [0..<m] (0, 0)"

text \<open>
  Lines 425 to 429 fill \<^verbatim>\<open>LU_idx\<close>, a vector of \<open>nl + nu\<close> uninitialised indices, through
  the two counters \<^verbatim>\<open>lcntr\<close> and \<^verbatim>\<open>ucntr\<close>.
\<close>

definition fill_LU_idx :: "'s::{zero,ord} list \<Rightarrow> nat \<Rightarrow> nat \<Rightarrow> nat \<Rightarrow> nat list" where
  "fill_LU_idx d m nl nu =
     snd (snd (fold
       (\<lambda>idx (lcntr, ucntr, LU_idx).
          let (lcntr', LU_idx') =
                (if d ! idx < 0 then (lcntr + 1, LU_idx[lcntr := idx]) else (lcntr, LU_idx))
          in if d ! idx > 0 then (lcntr', ucntr + 1, LU_idx'[nl + ucntr := idx])
             else (lcntr', ucntr, LU_idx'))
       [0..<m] (0, 0, replicate (nl + nu) undefined)))"

text \<open>Lines 466 to 468: the reduced matrix \<open>H\<close>, zero below its first \<open>n\<close> rows.\<close>

definition polish_H :: "'s::zero QuadraticProgram \<Rightarrow> nat \<Rightarrow> nat \<Rightarrow> nat list \<Rightarrow> 's Matrix" where
  "polish_H pbm nl nu LU_idx =
     (let n = cols (A pbm) in
      \<lparr>rows = n + nl + nu, cols = n + nl + nu,
       coeff = (\<lambda>r c.
         if r < n \<and> c < n then coeff (P pbm) r c
         else if r < n \<and> c < n + nl + nu then coeff (A pbm) (LU_idx ! (c - n)) r
         else 0)\<rparr>)"

text \<open>Lines 471 to 482: the copy \<open>Hp\<close> with \<open>delta\<close> added to and subtracted from the diagonal.\<close>

definition polish_Hp ::
  "'s::{plus,minus} QuadraticProgram \<Rightarrow> 's SolverParams \<Rightarrow> nat \<Rightarrow> nat \<Rightarrow> 's Matrix \<Rightarrow> 's Matrix" where
  "polish_Hp pbm prm nl nu H =
     (let n = cols (A pbm) in
      H\<lparr>coeff := (\<lambda>r c.
         if r = c \<and> r < n then coeff H r c + delta prm
         else if r = c \<and> r < n + nl + nu then coeff H r c - delta prm
         else coeff H r c)\<rparr>)"

text \<open>Lines 484 and 485: the right-hand side.\<close>

definition polish_h :: "'s::uminus QuadraticProgram \<Rightarrow> nat \<Rightarrow> nat \<Rightarrow> nat list \<Rightarrow> 's list" where
  "polish_h pbm nl nu LU_idx =
     map uminus (q pbm) @ map (\<lambda>i. l pbm ! i) (head nl LU_idx) @ map (\<lambda>i. u pbm ! i) (tail nu LU_idx)"

text \<open>
  Lines 497 to 500, with line 499 as \<open>refine_step\<close>. The counter is declared
  \<^verbatim>\<open>auto i = 0u\<close>, an \<^verbatim>\<open>unsigned int\<close> (32 bits on the ILP32, LP64 and LLP64 data
  models), and is converted to \<^verbatim>\<open>uint64_t\<close> for the
  comparison with \<^verbatim>\<open>prm.polish_iter\<close>; \<^verbatim>\<open>++i\<close> wraps at \<open>2^32\<close>. A loop that does not end
  is the value \<open>None\<close>.
\<close>

definition refine_step ::
  "'s::{zero,plus,minus,times} LDLTLapack \<Rightarrow> 's Matrix \<Rightarrow> 's list \<Rightarrow> 's list \<Rightarrow> 's list" where
  "refine_step ldlt H h t_hat =
     vec_add t_hat (solve ldlt (vec_sub h (selfadjoint_upper_vec H t_hat)))"

partial_function (option) polish_refine ::
  "'s::{zero,plus,minus,times} LDLTLapack \<Rightarrow> 's Matrix \<Rightarrow> 's list \<Rightarrow> 64 word \<Rightarrow> 32 word \<Rightarrow> 's list
     \<Rightarrow> 's list option" where
  "polish_refine ldlt H h n_iter i t_hat =
     (if ucast i \<noteq> n_iter
      then polish_refine ldlt H h n_iter (i + 1) (refine_step ldlt H h t_hat)
      else Some t_hat)"

text \<open>Lines 504 to 506: the solution is overwritten from \<^verbatim>\<open>t_hat\<close>.\<close>

definition update_solution :: "'s Solution \<Rightarrow> nat \<Rightarrow> nat \<Rightarrow> nat \<Rightarrow> nat list \<Rightarrow> 's list \<Rightarrow> 's Solution" where
  "update_solution sol n nl nu LU_idx t_hat =
     sol\<lparr>primal := head n t_hat,
         dual := fold (\<lambda>i d. d[LU_idx ! (nl + i) := t_hat ! (n + nl + i)]) [0..<nu]
                   (fold (\<lambda>i d. d[LU_idx ! i := t_hat ! (n + i)]) [0..<nl] (dual sol))\<rparr>"

definition polishQP ::
  "'s::{zero,plus,minus,uminus,times,ord} sysvx \<Rightarrow> 's QuadraticProgram \<Rightarrow> 's Solution
     \<Rightarrow> 's SolverParams \<Rightarrow> 's Solution option" where
  "polishQP sysvx pbm sol prm =
     (let n = cols (A pbm); m = rows (A pbm);
          (nl, nu) = count_active (dual sol) m;
          LU_idx = fill_LU_idx (dual sol) m nl nu;
          H = polish_H pbm nl nu LU_idx;
          Hp = polish_Hp pbm prm nl nu H;
          h = polish_h pbm nl nu LU_idx;
          ldlt = LDLTLapack_init sysvx Hp
      in if info ldlt \<noteq> 0 then Some (sol\<lparr>code := PolishFailed\<rparr>)
         else map_option (update_solution sol n nl nu LU_idx)
                (polish_refine ldlt H h (polish_iter prm) 0 (replicate (n + nl + nu) 0)))"

section \<open>solveQP\<close>

text \<open>
  Lines 240 to 244, the check that the feasible set is nonempty. The three reductions are
  evaluated from left to right and \<^verbatim>\<open>||\<close> stops at the first that decides; a reduction
  over an empty vector is a fault.
\<close>

definition preflight :: "'s::{zero,minus,uminus,ord,infinity} QuadraticProgram \<Rightarrow> fault + bool" where
  "preflight pbm =
     (case minCoeff (vec_sub (u pbm) (l pbm)) of
        None \<Rightarrow> Inl Empty_reduction
      | Some d \<Rightarrow>
          if d < 0 then Inr True
          else (case maxCoeff (l pbm) of
                  None \<Rightarrow> Inl Empty_reduction
                | Some l_max \<Rightarrow>
                    if l_max = \<infinity> then Inr True
                    else (case minCoeff (u pbm) of
                            None \<Rightarrow> Inl Empty_reduction
                          | Some u_min \<Rightarrow> Inr (u_min = - \<infinity>))))"

text \<open>
  Lines 279 to 282: the dense system matrix. The block below \<open>P\<close> is never written;
  LAPACK reads the upper triangle only.
\<close>

definition kkt_H ::
  "'s::{zero,one,plus,uminus,inverse} QuadraticProgram \<Rightarrow> 's SolverParams \<Rightarrow> 's Matrix" where
  "kkt_H pbm prm =
     (let n = cols (A pbm); m = rows (A pbm); k = n + m in
      \<lparr>rows = k, cols = k,
       coeff = (\<lambda>r c.
         if r < n \<and> c < n then (if r = c then coeff (P pbm) r c + sigma prm else coeff (P pbm) r c)
         else if r < n \<and> c < k then coeff (A pbm) (c - n) r
         else if r < k \<and> n \<le> c \<and> c < k then (if r = c then - 1 / rho prm else 0)
         else undefined)\<rparr>)"

text \<open>Lines 310 to 318: one ADMM step from \<open>x, y, z\<close> to \<open>x_next, y_next, z_next\<close>.\<close>

definition admm_update ::
  "'s::{one,plus,minus,times,inverse,ord} LDLTLapack \<Rightarrow> 's QuadraticProgram \<Rightarrow> 's SolverParams
     \<Rightarrow> 's list \<Rightarrow> 's list \<Rightarrow> 's list \<Rightarrow> 's list \<times> 's list \<times> 's list" where
  "admm_update ldlt pbm prm x y z =
     (let n = cols (A pbm); m = rows (A pbm);
          h = vec_sub (scal_mul (sigma prm) x) (q pbm) @ vec_sub z (vec_div y (rho prm));
          p = solve ldlt h;
          z_tilde = vec_add z (vec_div (vec_sub (tail m p) y) (rho prm));
          x_next = vec_add (scal_mul (alpha prm) (head n p)) (scal_mul (1 - alpha prm) x);
          z_interp = vec_add (scal_mul (alpha prm) z_tilde) (scal_mul (1 - alpha prm) z);
          z_next = cwiseMin (cwiseMax (vec_add z_interp (vec_div y (rho prm))) (l pbm)) (u pbm);
          y_next = vec_add y (scal_mul (rho prm) (vec_sub z_interp z_next))
      in (x_next, y_next, z_next))"

text \<open>Lines 326 to 334: the optimality test on the current \<open>x, y, z\<close>.\<close>

definition optimal_test ::
  "'s::{zero,plus,times,abs,ord,minus} QuadraticProgram \<Rightarrow> 's SolverParams
     \<Rightarrow> 's list \<Rightarrow> 's list \<Rightarrow> 's list \<Rightarrow> bool" where
  "optimal_test pbm prm x y z =
     (let Px = mat_vec (P pbm) x;
          Ax = mat_vec (A pbm) x;
          Aty = mat_trans_vec (A pbm) y;
          primal_scale = std_max (norm_inf Ax) (norm_inf z);
          dual_scale = std_max (std_max (norm_inf Px) (norm_inf (q pbm))) (norm_inf Aty)
      in norm_inf (vec_sub Ax z) \<le> eps_abs prm + eps_rel prm * primal_scale
         \<and> norm_inf (vec_add (vec_add Px (q pbm)) Aty) \<le> eps_abs prm + eps_abs prm * dual_scale)"

text \<open>
  Lines 348 to 364: the body of the scan for constraint \<open>i\<close>, from the running sum to the
  new one; \<open>None\<close> is the \<^verbatim>\<open>break\<close> that leaves \<open>\<infinity>\<close> in \<^verbatim>\<open>u_dyp_plus_l_dyn\<close>.
\<close>

definition u_dyp_plus_l_dyn_body ::
  "'s::{zero,plus,times,uminus,ord,infinity} QuadraticProgram \<Rightarrow> 's SolverParams \<Rightarrow> 's list \<Rightarrow> 's
     \<Rightarrow> nat \<Rightarrow> 's \<Rightarrow> 's option" where
  "u_dyp_plus_l_dyn_body pbm prm dy dy_norm i acc =
     (case (if u pbm ! i \<noteq> \<infinity> then Some (acc + u pbm ! i * std_max 0 (dy ! i))
            else if dy ! i > eps_primal_inf prm * dy_norm then None
            else Some acc) of
        None \<Rightarrow> None
      | Some acc' \<Rightarrow>
          if l pbm ! i \<noteq> - \<infinity> then Some (acc' + l pbm ! i * std_min 0 (dy ! i))
          else if dy ! i < - eps_primal_inf prm * dy_norm then None
          else Some acc')"

fun u_dyp_plus_l_dyn_scan ::
  "'s::{zero,plus,times,uminus,ord,infinity} QuadraticProgram \<Rightarrow> 's SolverParams \<Rightarrow> 's list \<Rightarrow> 's
     \<Rightarrow> nat list \<Rightarrow> 's \<Rightarrow> 's" where
  "u_dyp_plus_l_dyn_scan pbm prm dy dy_norm [] acc = acc"
| "u_dyp_plus_l_dyn_scan pbm prm dy dy_norm (i # is) acc =
     (case u_dyp_plus_l_dyn_body pbm prm dy dy_norm i acc of
        None \<Rightarrow> \<infinity>
      | Some acc' \<Rightarrow> u_dyp_plus_l_dyn_scan pbm prm dy dy_norm is acc')"

text \<open>Lines 342 to 366: the primal infeasibility test on \<open>dy = y_next - y\<close>.\<close>

definition primal_infeasible_test ::
  "'s::{zero,plus,times,uminus,abs,ord,infinity} QuadraticProgram \<Rightarrow> 's SolverParams \<Rightarrow> 's list
     \<Rightarrow> bool" where
  "primal_infeasible_test pbm prm dy =
     (let m = rows (A pbm);
          dy_norm = norm_inf dy;
          At_dy_norm = norm_inf (mat_trans_vec (A pbm) dy);
          u_dyp_plus_l_dyn = u_dyp_plus_l_dyn_scan pbm prm dy dy_norm [0..<m] 0
      in std_max At_dy_norm u_dyp_plus_l_dyn < eps_primal_inf prm * dy_norm)"

text \<open>
  Lines 375 to 383: the loop \<^verbatim>\<open>for (i = 0u; i != m && dual_infeasible; ++i)\<close>.
\<close>

fun dual_infeasible_scan ::
  "'s::{times,uminus,abs,ord,infinity} QuadraticProgram \<Rightarrow> 's SolverParams \<Rightarrow> 's list \<Rightarrow> 's
     \<Rightarrow> nat list \<Rightarrow> bool \<Rightarrow> bool" where
  "dual_infeasible_scan pbm prm Adx dx_norm [] dual_infeasible = dual_infeasible"
| "dual_infeasible_scan pbm prm Adx dx_norm (i # is) dual_infeasible =
     (if dual_infeasible
      then dual_infeasible_scan pbm prm Adx dx_norm is
             (if u pbm ! i = \<infinity>
              then dual_infeasible \<and> Adx ! i \<ge> - eps_dual_inf prm * dx_norm
              else if l pbm ! i = - \<infinity>
              then dual_infeasible \<and> Adx ! i \<le> eps_dual_inf prm * dx_norm
              else dual_infeasible \<and> \<bar>Adx ! i\<bar> < eps_dual_inf prm * dx_norm)
      else dual_infeasible)"

text \<open>Lines 372 to 385: the dual infeasibility test on \<open>dx = x_next - x\<close>.\<close>

definition dual_infeasible_test ::
  "'s::{zero,plus,times,uminus,abs,ord,infinity} QuadraticProgram \<Rightarrow> 's SolverParams \<Rightarrow> 's list
     \<Rightarrow> bool" where
  "dual_infeasible_test pbm prm dx =
     (let m = rows (A pbm);
          dx_norm = norm_inf dx;
          dual_infeasible = (norm_inf (mat_vec (P pbm) dx) \<le> eps_dual_inf prm * dx_norm)
                          \<and> (dot (q pbm) dx \<le> eps_dual_inf prm * dx_norm);
          Adx = mat_vec (A pbm) dx
      in dual_infeasible_scan pbm prm Adx dx_norm [0..<m] dual_infeasible)"

text \<open>
  Lines 308 to 390: the body of the loop for the counter \<open>i\<close>. The counter is converted to
  \<^verbatim>\<open>uint64_t\<close> for \<^verbatim>\<open>i % prm.stop_check_iter\<close>, whose result is undefined for a zero
  divisor. The result is \<open>None\<close> when the polishing does not end.
\<close>

definition admm_iter ::
  "'s::{zero,one,plus,minus,uminus,times,inverse,abs,ord,infinity} sysvx \<Rightarrow> 's LDLTLapack
     \<Rightarrow> 's QuadraticProgram \<Rightarrow> 's SolverParams \<Rightarrow> 32 word \<Rightarrow> 's list \<Rightarrow> 's list \<Rightarrow> 's list
     \<Rightarrow> 's iteration option" where
  "admm_iter sysvx ldlt pbm prm i x y z =
     (let (x_next, y_next, z_next) = admm_update ldlt pbm prm x y z in
      if stop_check_iter prm = 0 then Some (Fault Remainder_by_zero)
      else if ucast i mod stop_check_iter prm = stop_check_iter prm - 1 then
        if optimal_test pbm prm x y z then
          (let sol = \<lparr>code = Optimal, primal = x, dual = y\<rparr> in
           if polish prm then map_option Return (polishQP sysvx pbm sol prm)
           else Some (Return sol))
        else if primal_infeasible_test pbm prm (vec_sub y_next y) then
          Some (Return \<lparr>code = PrimalInfeasible, primal = [], dual = []\<rparr>)
        else if dual_infeasible_test pbm prm (vec_sub x_next x) then
          Some (Return \<lparr>code = DualInfeasible, primal = [], dual = []\<rparr>)
        else Some (Commit x_next y_next z_next)
      else Some (Commit x_next y_next z_next))"

text \<open>
  Lines 306 to 393: the loop \<^verbatim>\<open>for (auto i = 0u; i != prm.max_iter; ++i)\<close>. As in the
  polishing, \<open>i\<close> is a 32-bit \<^verbatim>\<open>unsigned int\<close> compared with a \<^verbatim>\<open>uint64_t\<close>.
\<close>

partial_function (option) admm_loop ::
  "'s::{zero,one,plus,minus,uminus,times,inverse,abs,ord,infinity} sysvx \<Rightarrow> 's LDLTLapack
     \<Rightarrow> 's QuadraticProgram \<Rightarrow> 's SolverParams \<Rightarrow> 32 word \<Rightarrow> 's list \<Rightarrow> 's list \<Rightarrow> 's list
     \<Rightarrow> (fault + 's Solution) option" where
  "admm_loop sysvx ldlt pbm prm i x y z =
     (if ucast i \<noteq> max_iter prm then
        (case admm_iter sysvx ldlt pbm prm i x y z of
           None \<Rightarrow> None
         | Some (Return sol) \<Rightarrow> Some (Inr sol)
         | Some (Fault f) \<Rightarrow> Some (Inl f)
         | Some (Commit x_next y_next z_next) \<Rightarrow>
             admm_loop sysvx ldlt pbm prm (i + 1) x_next y_next z_next)
      else Some (Inr \<lparr>code = MaxIterations, primal = x, dual = y\<rparr>))"

text \<open>
  \<^verbatim>\<open>solveQP\<close>: the check, the factorization of \<open>H\<close> (lines 286 to 289), the initial
  \<open>x, y, z\<close> from the hotstart if there is one (lines 295 to 304) and the loop.
\<close>

definition solveQP ::
  "'s::{zero,one,plus,minus,uminus,times,inverse,abs,ord,infinity} sysvx \<Rightarrow> 's QuadraticProgram
     \<Rightarrow> 's SolverParams \<Rightarrow> 's Solution option \<Rightarrow> (fault + 's Solution) option" where
  "solveQP sysvx pbm prm hotstart =
     (let n = cols (A pbm); m = rows (A pbm) in
      case preflight pbm of
        Inl f \<Rightarrow> Some (Inl f)
      | Inr True \<Rightarrow> Some (Inr \<lparr>code = PrimalInfeasible, primal = [], dual = []\<rparr>)
      | Inr False \<Rightarrow>
          (let ldlt = LDLTLapack_init sysvx (kkt_H pbm prm) in
           if info ldlt \<noteq> 0 then Some (Inr \<lparr>code = Unknown, primal = [], dual = []\<rparr>)
           else (case hotstart of
                   Some hs \<Rightarrow>
                     admm_loop sysvx ldlt pbm prm 0 (primal hs) (dual hs) (mat_vec (A pbm) (primal hs))
                 | None \<Rightarrow>
                     admm_loop sysvx ldlt pbm prm 0 (replicate n 0) (replicate m 0) (replicate m 0))))"

section \<open>A scalar type and a solver for the examples\<close>

text \<open>
  The examples run the model on \<open>xreal\<close>: the reals with the special values of IEEE 754
  (\<open>PInf\<close>, \<open>MInf\<close>, \<open>NaN\<close>) and exact arithmetic on the finite values. A comparison with
  \<open>NaN\<close> is false.
\<close>

datatype xreal = Fin real | PInf | MInf | NaN

instantiation xreal :: "{zero,one,plus,minus,uminus,times,inverse,abs,ord,infinity}"
begin

definition zero_xreal :: xreal where
  "zero_xreal = Fin 0"

definition one_xreal :: xreal where
  "one_xreal = Fin 1"

definition infinity_xreal :: xreal where
  "infinity_xreal = PInf"

fun uminus_xreal :: "xreal \<Rightarrow> xreal" where
  "uminus_xreal (Fin a) = Fin (- a)"
| "uminus_xreal PInf = MInf"
| "uminus_xreal MInf = PInf"
| "uminus_xreal NaN = NaN"

fun plus_xreal :: "xreal \<Rightarrow> xreal \<Rightarrow> xreal" where
  "plus_xreal (Fin a) (Fin b) = Fin (a + b)"
| "plus_xreal (Fin a) PInf = PInf"
| "plus_xreal (Fin a) MInf = MInf"
| "plus_xreal PInf (Fin b) = PInf"
| "plus_xreal PInf PInf = PInf"
| "plus_xreal MInf (Fin b) = MInf"
| "plus_xreal MInf MInf = MInf"
| "plus_xreal a b = NaN"

definition minus_xreal :: "xreal \<Rightarrow> xreal \<Rightarrow> xreal" where
  "minus_xreal a b = a + (- b)"

fun times_xreal :: "xreal \<Rightarrow> xreal \<Rightarrow> xreal" where
  "times_xreal (Fin a) (Fin b) = Fin (a * b)"
| "times_xreal (Fin a) PInf = (if a = 0 then NaN else if 0 < a then PInf else MInf)"
| "times_xreal (Fin a) MInf = (if a = 0 then NaN else if 0 < a then MInf else PInf)"
| "times_xreal PInf (Fin b) = (if b = 0 then NaN else if 0 < b then PInf else MInf)"
| "times_xreal MInf (Fin b) = (if b = 0 then NaN else if 0 < b then MInf else PInf)"
| "times_xreal PInf PInf = PInf"
| "times_xreal PInf MInf = MInf"
| "times_xreal MInf PInf = MInf"
| "times_xreal MInf MInf = PInf"
| "times_xreal a b = NaN"

fun divide_xreal :: "xreal \<Rightarrow> xreal \<Rightarrow> xreal" where
  "divide_xreal (Fin a) (Fin b) =
     (if b = 0 then (if a = 0 then NaN else if 0 < a then PInf else MInf) else Fin (a / b))"
| "divide_xreal (Fin a) PInf = Fin 0"
| "divide_xreal (Fin a) MInf = Fin 0"
| "divide_xreal PInf (Fin b) = (if 0 \<le> b then PInf else MInf)"
| "divide_xreal MInf (Fin b) = (if 0 \<le> b then MInf else PInf)"
| "divide_xreal a b = NaN"

definition inverse_xreal :: "xreal \<Rightarrow> xreal" where
  "inverse_xreal a = divide (Fin 1) a"

fun abs_xreal :: "xreal \<Rightarrow> xreal" where
  "abs_xreal (Fin a) = Fin \<bar>a\<bar>"
| "abs_xreal PInf = PInf"
| "abs_xreal MInf = PInf"
| "abs_xreal NaN = NaN"

fun less_xreal :: "xreal \<Rightarrow> xreal \<Rightarrow> bool" where
  "less_xreal (Fin a) (Fin b) = (a < b)"
| "less_xreal (Fin a) PInf = True"
| "less_xreal MInf (Fin b) = True"
| "less_xreal MInf PInf = True"
| "less_xreal a b = False"

definition less_eq_xreal :: "xreal \<Rightarrow> xreal \<Rightarrow> bool" where
  "less_eq_xreal a b = (a < b \<or> (a = b \<and> a \<noteq> NaN))"

instance ..

end

text \<open>
  \<open>sysvx_small\<close> stands for LAPACK in the examples: the exact solution of a symmetric
  system of order one or two, read from the upper triangle, with a positive \<^verbatim>\<open>info\<close> for a
  singular matrix. It rejects every other order as an illegal argument.
\<close>

definition sysvx_small :: "xreal sysvx" where
  "sysvx_small M =
     (if cols M = 1 then
        (let a = coeff M 0 0 in
         (if a = Fin 0 then 1 else 0, \<lambda>b i. b ! 0 / a))
      else if cols M = 2 then
        (let a = coeff M 0 0; b = coeff M 0 1; d = coeff M 1 1; det = a * d - b * b in
         (if det = Fin 0 then 2 else 0,
          \<lambda>r i. if i = 0 then (r ! 0 * d - b * r ! 1) / det else (a * r ! 1 - b * r ! 0) / det))
      else (- 3, \<lambda>b i. NaN))"

text \<open>
  \<open>sysvx_cramer3\<close> does the same for a symmetric system of order three, by Cramer's rule
  on the upper triangle.
\<close>

definition sysvx_cramer3 :: "xreal sysvx" where
  "sysvx_cramer3 M =
     (if cols M = 3 then
        (let a = coeff M 0 0; b = coeff M 0 1; c = coeff M 0 2;
             d = coeff M 1 1; e = coeff M 1 2; f = coeff M 2 2;
             det = a * (d * f - e * e) - b * (b * f - c * e) + c * (b * e - c * d) in
         (if det = Fin 0 then 3 else 0,
          \<lambda>r i. if i = 0 then
                   ((d * f - e * e) * r ! 0 + (c * e - b * f) * r ! 1 + (b * e - c * d) * r ! 2) / det
                 else if i = 1 then
                   ((c * e - b * f) * r ! 0 + (a * f - c * c) * r ! 1 + (b * c - a * e) * r ! 2) / det
                 else
                   ((b * e - c * d) * r ! 0 + (b * c - a * e) * r ! 1 + (a * d - b * b) * r ! 2) / det))
      else (- 3, \<lambda>b i. NaN))"

section \<open>Notions of the specification\<close>

text \<open>
  The invariants of the data model: \<open>P\<close> is \<open>n \<times> n\<close>, \<open>q\<close> has \<open>n\<close> entries, \<open>l\<close> and \<open>u\<close>
  have \<open>m\<close>, for the \<open>m \<times> n\<close> matrix \<open>A\<close>. Eigen asserts them where they are not static,
  and the model follows the code on the problems that satisfy them. A theorem assumes
  \<open>wf_problem\<close> where its proof needs the dimensions.
\<close>

definition wf_problem :: "'s QuadraticProgram \<Rightarrow> bool" where
  "wf_problem pbm \<longleftrightarrow>
     rows (P pbm) = cols (A pbm) \<and> cols (P pbm) = cols (A pbm) \<and> length (q pbm) = cols (A pbm)
     \<and> length (l pbm) = rows (A pbm) \<and> length (u pbm) = rows (A pbm)"

text \<open>
  The bounds compare with \<open>\<infinity>\<close> and \<open>- \<infinity>\<close> as every IEEE value but NaN does. Eigen leaves
  the result of \<^verbatim>\<open>minCoeff\<close> and \<^verbatim>\<open>maxCoeff\<close> open for a vector that holds a NaN.
\<close>

definition no_nan_bounds :: "'s::{uminus,ord,infinity} QuadraticProgram \<Rightarrow> bool" where
  "no_nan_bounds pbm \<longleftrightarrow>
     (\<forall>a \<in> set (l pbm). (a = \<infinity> \<or> a < \<infinity>) \<and> \<not> \<infinity> < a)
     \<and> (\<forall>a \<in> set (u pbm). (a = - \<infinity> \<or> - \<infinity> < a) \<and> \<not> a < - \<infinity>)"

text \<open>
  The rejection of the specification: \<open>min(u - l) < 0\<close>, or some \<open>l[i] = +\<infinity>\<close>, or some
  \<open>u[i] = -\<infinity>\<close>.
\<close>

definition infeasible_bounds :: "'s::{zero,minus,uminus,ord,infinity} QuadraticProgram \<Rightarrow> bool" where
  "infeasible_bounds pbm \<longleftrightarrow>
     (\<exists>d. minCoeff (vec_sub (u pbm) (l pbm)) = Some d \<and> d < 0)
     \<or> \<infinity> \<in> set (l pbm) \<or> - \<infinity> \<in> set (u pbm)"

text \<open>
  A termination check is due in iteration \<open>i\<close>: \<open>i mod K = K - 1\<close> for the period
  \<open>K = stop_check_iter \<ge> 1\<close>, on the mathematical values.
\<close>

definition check_due :: "'s SolverParams \<Rightarrow> 32 word \<Rightarrow> bool" where
  "check_due prm i \<longleftrightarrow>
     0 < unat (stop_check_iter prm)
     \<and> unat i mod unat (stop_check_iter prm) = unat (stop_check_iter prm) - 1"

text \<open>
  The initial iterates of lines 295 to 304, and the iterates \<open>(x, y, z)\<close> after \<open>k\<close> commits.
\<close>

definition admm_init ::
  "'s::{zero,plus,times} QuadraticProgram \<Rightarrow> 's Solution option \<Rightarrow> 's list \<times> 's list \<times> 's list" where
  "admm_init pbm hotstart =
     (case hotstart of
        Some hs \<Rightarrow> (primal hs, dual hs, mat_vec (A pbm) (primal hs))
      | None \<Rightarrow> (replicate (cols (A pbm)) 0, replicate (rows (A pbm)) 0, replicate (rows (A pbm)) 0))"

definition admm_state ::
  "'s::{one,plus,minus,times,inverse,ord} LDLTLapack \<Rightarrow> 's QuadraticProgram \<Rightarrow> 's SolverParams
     \<Rightarrow> nat \<Rightarrow> 's list \<times> 's list \<times> 's list \<Rightarrow> 's list \<times> 's list \<times> 's list" where
  "admm_state ldlt pbm prm k = ((\<lambda>(x, y, z). admm_update ldlt pbm prm x y z) ^^ k)"

text \<open>
  The two conditions of the specification for \<^verbatim>\<open>Optimal\<close>, both tolerance terms of
  the second with \<open>eps_abs\<close>.
\<close>

definition optimal_spec ::
  "'s::{zero,plus,times,abs,ord,minus} QuadraticProgram \<Rightarrow> 's SolverParams
     \<Rightarrow> 's list \<Rightarrow> 's list \<Rightarrow> 's list \<Rightarrow> bool" where
  "optimal_spec pbm prm x y z \<longleftrightarrow>
     norm_inf (vec_sub (mat_vec (A pbm) x) z)
       \<le> eps_abs prm + eps_rel prm * std_max (norm_inf (mat_vec (A pbm) x)) (norm_inf z)
     \<and> norm_inf (vec_add (vec_add (mat_vec (P pbm) x) (q pbm)) (mat_trans_vec (A pbm) y))
       \<le> eps_abs prm + eps_abs prm
            * std_max (std_max (norm_inf (mat_vec (P pbm) x)) (norm_inf (q pbm)))
                (norm_inf (mat_trans_vec (A pbm) y))"

text \<open>
  The sum of the specification for the primal certificate: \<open>\<infinity>\<close> when some constraint
  destroys the certificate, else the terms \<open>u[i] * max(0, dy[i])\<close> (for \<open>u[i] \<noteq> +\<infinity>\<close>) and
  \<open>l[i] * min(0, dy[i])\<close> (for \<open>l[i] \<noteq> -\<infinity>\<close>) added up in the order of the constraints.
\<close>

definition certificate_destroying ::
  "'s::{zero,times,uminus,abs,ord,infinity} QuadraticProgram \<Rightarrow> 's SolverParams \<Rightarrow> 's list \<Rightarrow> nat
     \<Rightarrow> bool" where
  "certificate_destroying pbm prm dy i \<longleftrightarrow>
     (u pbm ! i = \<infinity> \<and> dy ! i > eps_primal_inf prm * norm_inf dy)
     \<or> (l pbm ! i = - \<infinity> \<and> dy ! i < - eps_primal_inf prm * norm_inf dy)"

definition support_terms ::
  "'s::{zero,times,uminus,ord,infinity} QuadraticProgram \<Rightarrow> 's list \<Rightarrow> nat \<Rightarrow> 's list" where
  "support_terms pbm dy i =
     (if u pbm ! i \<noteq> \<infinity> then [u pbm ! i * std_max 0 (dy ! i)] else [])
     @ (if l pbm ! i \<noteq> - \<infinity> then [l pbm ! i * std_min 0 (dy ! i)] else [])"

definition u_dyp_plus_l_dyn_spec ::
  "'s::{zero,plus,times,uminus,abs,ord,infinity} QuadraticProgram \<Rightarrow> 's SolverParams \<Rightarrow> 's list
     \<Rightarrow> 's" where
  "u_dyp_plus_l_dyn_spec pbm prm dy =
     (if \<exists>i < rows (A pbm). certificate_destroying pbm prm dy i then \<infinity>
      else foldl (+) 0 (concat (map (support_terms pbm dy) [0..<rows (A pbm)])))"

text \<open>The three conditions of the specification for the dual certificate.\<close>

definition dual_infeasible_spec ::
  "'s::{zero,plus,times,uminus,abs,ord,infinity} QuadraticProgram \<Rightarrow> 's SolverParams \<Rightarrow> 's list
     \<Rightarrow> bool" where
  "dual_infeasible_spec pbm prm dx \<longleftrightarrow>
     norm_inf (mat_vec (P pbm) dx) \<le> eps_dual_inf prm * norm_inf dx
     \<and> dot (q pbm) dx \<le> eps_dual_inf prm * norm_inf dx
     \<and> (\<forall>i < rows (A pbm).
           if u pbm ! i = \<infinity> then mat_vec (A pbm) dx ! i \<ge> - eps_dual_inf prm * norm_inf dx
           else if l pbm ! i = - \<infinity> then mat_vec (A pbm) dx ! i \<le> eps_dual_inf prm * norm_inf dx
           else \<bar>mat_vec (A pbm) dx ! i\<bar> < eps_dual_inf prm * norm_inf dx)"

text \<open>
  The active set that \<^verbatim>\<open>polishQP\<close> computes (\<open>nl\<close>, \<open>nu\<close> and \<^verbatim>\<open>LU_idx\<close>) and the
  matrices it builds from it.
\<close>

definition active_set :: "'s::{zero,ord} Solution \<Rightarrow> nat \<Rightarrow> nat \<times> nat \<times> nat list" where
  "active_set sol m =
     (let (nl, nu) = count_active (dual sol) m in (nl, nu, fill_LU_idx (dual sol) m nl nu))"

definition reduced_H :: "'s::{zero,ord} QuadraticProgram \<Rightarrow> 's Solution \<Rightarrow> 's Matrix" where
  "reduced_H pbm sol =
     (let (nl, nu, LU_idx) = active_set sol (rows (A pbm)) in polish_H pbm nl nu LU_idx)"

definition reduced_Hp ::
  "'s::{zero,plus,minus,ord} QuadraticProgram \<Rightarrow> 's Solution \<Rightarrow> 's SolverParams \<Rightarrow> 's Matrix" where
  "reduced_Hp pbm sol prm =
     (let (nl, nu, LU_idx) = active_set sol (rows (A pbm))
      in polish_Hp pbm prm nl nu (polish_H pbm nl nu LU_idx))"

definition reduced_h :: "'s::{zero,uminus,ord} QuadraticProgram \<Rightarrow> 's Solution \<Rightarrow> 's list" where
  "reduced_h pbm sol =
     (let (nl, nu, LU_idx) = active_set sol (rows (A pbm)) in polish_h pbm nl nu LU_idx)"

text \<open>The sets \<open>L\<close> and \<open>U\<close> of the specification, in increasing order.\<close>

definition L_set :: "'s::{zero,ord} Solution \<Rightarrow> nat \<Rightarrow> nat list" where
  "L_set sol m = filter (\<lambda>i. dual sol ! i < 0) [0..<m]"

definition U_set :: "'s::{zero,ord} Solution \<Rightarrow> nat \<Rightarrow> nat list" where
  "U_set sol m = filter (\<lambda>i. dual sol ! i > 0) [0..<m]"

section \<open>Example problems\<close>

text \<open>
  Scenario S2 of the specification, the scalar box \<open>1 \<le> x \<le> 2\<close>; scenario S3, the infeasible
  bounds \<open>l = [1, 1]\<close>, \<open>u = [0, 0]\<close>; a problem without constraints; a scalar problem with a
  free constraint; a scalar problem with zero cost; and a scalar problem with two constraints
  \<open>0 \<le> x \<le> 1\<close> and \<open>-1 \<le> x \<le> 1\<close>, with its solution; a scalar problem with three
  constraints and a solution whose duals are negative, zero and positive; the constraint
  \<open>1 \<le> 0 * x \<le> 2\<close> that no \<open>x\<close> meets; and the cost \<open>- x\<close> on \<open>x \<ge> 0\<close>, unbounded below.
  \<open>default_params\<close> holds the defaults of \<^verbatim>\<open>SolverParams\<close>.
\<close>

definition qp_box :: "xreal QuadraticProgram" where
  "qp_box = \<lparr>P = \<lparr>rows = 1, cols = 1, coeff = (\<lambda>i j. Fin 2)\<rparr>, q = [Fin 0],
             A = \<lparr>rows = 1, cols = 1, coeff = (\<lambda>i j. Fin 1)\<rparr>, l = [Fin 1], u = [Fin 2]\<rparr>"

definition qp_infeasible :: "xreal QuadraticProgram" where
  "qp_infeasible =
     \<lparr>P = \<lparr>rows = 2, cols = 2, coeff = (\<lambda>i j. if i = j then Fin 1 else Fin 0)\<rparr>, q = [Fin 0, Fin 0],
      A = \<lparr>rows = 2, cols = 2, coeff = (\<lambda>i j. if i = j then Fin 1 else Fin 0)\<rparr>,
      l = [Fin 1, Fin 1], u = [Fin 0, Fin 0]\<rparr>"

definition qp_unconstrained :: "xreal QuadraticProgram" where
  "qp_unconstrained = \<lparr>P = \<lparr>rows = 1, cols = 1, coeff = (\<lambda>i j. Fin 2)\<rparr>, q = [Fin 1],
             A = \<lparr>rows = 0, cols = 1, coeff = (\<lambda>i j. Fin 0)\<rparr>, l = [], u = []\<rparr>"

definition qp_free :: "xreal QuadraticProgram" where
  "qp_free = \<lparr>P = \<lparr>rows = 1, cols = 1, coeff = (\<lambda>i j. Fin 2)\<rparr>, q = [Fin 1],
              A = \<lparr>rows = 1, cols = 1, coeff = (\<lambda>i j. Fin 1)\<rparr>, l = [MInf], u = [PInf]\<rparr>"

definition qp_zero_cost :: "xreal QuadraticProgram" where
  "qp_zero_cost = \<lparr>P = \<lparr>rows = 1, cols = 1, coeff = (\<lambda>i j. Fin 0)\<rparr>, q = [Fin 0],
                   A = \<lparr>rows = 1, cols = 1, coeff = (\<lambda>i j. Fin 1)\<rparr>, l = [Fin 0], u = [Fin 1]\<rparr>"

definition qp_two_rows :: "xreal QuadraticProgram" where
  "qp_two_rows = \<lparr>P = \<lparr>rows = 1, cols = 1, coeff = (\<lambda>i j. Fin 2)\<rparr>, q = [Fin 1],
                  A = \<lparr>rows = 2, cols = 1, coeff = (\<lambda>i j. Fin 1)\<rparr>,
                  l = [Fin 0, Fin (- 1)], u = [Fin 1, Fin 1]\<rparr>"

definition sol_two_rows :: "xreal Solution" where
  "sol_two_rows = \<lparr>code = Optimal, primal = [Fin 0], dual = [Fin (- 1), Fin 0]\<rparr>"

definition qp_zero_row :: "xreal QuadraticProgram" where
  "qp_zero_row = \<lparr>P = \<lparr>rows = 1, cols = 1, coeff = (\<lambda>i j. Fin 2)\<rparr>, q = [Fin 1],
                  A = \<lparr>rows = 1, cols = 1, coeff = (\<lambda>i j. Fin 0)\<rparr>, l = [Fin 1], u = [Fin 2]\<rparr>"

definition qp_unbounded :: "xreal QuadraticProgram" where
  "qp_unbounded = \<lparr>P = \<lparr>rows = 1, cols = 1, coeff = (\<lambda>i j. Fin 0)\<rparr>, q = [Fin (- 1)],
                   A = \<lparr>rows = 1, cols = 1, coeff = (\<lambda>i j. Fin 1)\<rparr>, l = [Fin 0], u = [PInf]\<rparr>"

definition qp_three_rows :: "xreal QuadraticProgram" where
  "qp_three_rows = \<lparr>P = \<lparr>rows = 1, cols = 1, coeff = (\<lambda>i j. Fin 2)\<rparr>, q = [Fin 1],
                    A = \<lparr>rows = 3, cols = 1, coeff = (\<lambda>i j. Fin 1)\<rparr>,
                    l = [Fin 0, Fin (- 1), Fin (- 2)], u = [Fin 2, Fin 2, Fin 1]\<rparr>"

definition sol_three_rows :: "xreal Solution" where
  "sol_three_rows = \<lparr>code = Optimal, primal = [Fin 0], dual = [Fin (- 1), Fin 0, Fin 1]\<rparr>"

definition default_params :: "xreal SolverParams" where
  "default_params =
     \<lparr>alpha = Fin (16 / 10), rho = Fin (1 / 10), sigma = Fin (1 / 1000000),
      eps_abs = Fin (1 / 1000), eps_rel = Fin (1 / 1000),
      eps_primal_inf = Fin (1 / 10000), eps_dual_inf = Fin (1 / 10000),
      max_iter = 18446744073709551615, stop_check_iter = 10, polish = True, polish_iter = 5,
      delta = Fin (1 / 1000000)\<rparr>"

section \<open>Evaluation of the examples\<close>

lemmas eigen_defs = std_max_def std_min_def vec_add_def vec_sub_def scal_mul_def vec_div_def
  cwiseMax_def cwiseMin_def head_def tail_def minCoeff_def maxCoeff_def sum_coeffs_def dot_def
  norm_inf_def mat_vec_def mat_trans_vec_def selfadjoint_upper_vec_def

lemmas xreal_defs = zero_xreal_def one_xreal_def infinity_xreal_def minus_xreal_def
  inverse_xreal_def less_eq_xreal_def

lemmas qp_defs = LDLTLapack_init_def info_def solve_def count_active_def fill_LU_idx_def
  polish_H_def polish_Hp_def polish_h_def update_solution_def polishQP_def preflight_def
  kkt_H_def admm_update_def optimal_test_def u_dyp_plus_l_dyn_body_def primal_infeasible_test_def
  dual_infeasible_test_def admm_iter_def solveQP_def sysvx_small_def sysvx_cramer3_def
  refine_step_def Let_def

lemmas spec_defs = wf_problem_def no_nan_bounds_def infeasible_bounds_def check_due_def
  optimal_spec_def certificate_destroying_def support_terms_def u_dyp_plus_l_dyn_spec_def
  dual_infeasible_spec_def
  active_set_def reduced_H_def reduced_Hp_def reduced_h_def L_set_def U_set_def

lemmas example_defs = qp_box_def qp_infeasible_def qp_unconstrained_def qp_free_def
  qp_zero_cost_def qp_two_rows_def sol_two_rows_def qp_three_rows_def sol_three_rows_def
  qp_zero_row_def qp_unbounded_def default_params_def

lemmas eval_defs = qp_defs spec_defs example_defs eigen_defs xreal_defs

section \<open>The loop counters\<close>

lemma counter_below: "unat (i::32 word) < 2 ^ 32"
  using unsigned_less[of i, where 'a = nat] by simp

lemma unat_ucast_32_64: "unat (ucast (i::32 word) :: 64 word) = unat i"
proof -
  have "unat i < 2 ^ 64" using counter_below[of i] by simp
  then show ?thesis by (simp add: unsigned_ucast_eq take_bit_nat_eq_self)
qed

lemma ucast_eq_iff_unat: "(ucast (i::32 word) = (N::64 word)) \<longleftrightarrow> unat i = unat N"
  using word_unat_eq_iff[of "ucast i" N] by (simp add: unat_ucast_32_64)

lemma counter_never_reaches:
  assumes "2 ^ 32 \<le> unat (N::64 word)"
  shows "ucast (i::32 word) \<noteq> N"
  using assms counter_below[of i] by (simp add: ucast_eq_iff_unat)

lemma check_due_word:
  assumes "stop_check_iter prm \<noteq> 0"
  shows "(ucast i mod stop_check_iter prm = stop_check_iter prm - 1) \<longleftrightarrow> check_due prm i"
proof -
  have "unat (ucast i mod stop_check_iter prm) = unat i mod unat (stop_check_iter prm)"
    by (simp add: unat_mod unat_ucast_32_64)
  moreover have "unat (stop_check_iter prm - 1) = unat (stop_check_iter prm) - 1"
    using assms by (rule unat_minus_one)
  moreover have "0 < unat (stop_check_iter prm)"
    using assms by (simp add: unat_gt_0)
  ultimately show ?thesis
    by (simp add: check_due_def word_unat_eq_iff)
qed

lemma check_due_nonzero: "check_due prm i \<Longrightarrow> stop_check_iter prm \<noteq> 0"
  by (auto simp: check_due_def)

lemma no_check_large_period:
  assumes "2 ^ 32 < unat (stop_check_iter prm)"
  shows "stop_check_iter prm \<noteq> 0" and "\<not> check_due prm i"
proof -
  show "stop_check_iter prm \<noteq> 0" using assms by auto
  have "unat i < 2 ^ 32" by (rule counter_below)
  then show "\<not> check_due prm i"
    using assms by (simp add: check_due_def)
qed

lemma no_check_before_period:
  assumes "unat i < unat (stop_check_iter prm) - 1"
  shows "stop_check_iter prm \<noteq> 0" and "\<not> check_due prm i"
proof -
  show "stop_check_iter prm \<noteq> 0" using assms by auto
  show "\<not> check_due prm i"
    using assms by (simp add: check_due_def)
qed

section \<open>The check of the bounds\<close>





lemma minCoeff_None: "minCoeff v = None \<longleftrightarrow> v = []"
  by (cases v) (auto simp: minCoeff_def)

lemma maxCoeff_None: "maxCoeff v = None \<longleftrightarrow> v = []"
  by (cases v) (auto simp: maxCoeff_def)





text \<open>
  C10. For a problem without constraint rows the first reduction of the check, over the
  empty vector \<open>u - l\<close>, has no defined result, and so \<^verbatim>\<open>solveQP\<close> has none; with at least
  one row the three reductions are defined.
\<close>

theorem preflight_needs_a_constraint:
  assumes "wf_problem pbm"
  shows "(preflight pbm = Inl Empty_reduction \<longleftrightarrow> rows (A pbm) = 0)
         \<and> (rows (A pbm) = 0 \<longrightarrow> solveQP sysvx pbm prm hotstart = Some (Inl Empty_reduction))"
proof -
  have len: "length (l pbm) = rows (A pbm)" "length (u pbm) = rows (A pbm)"
    using assms by (simp_all add: wf_problem_def)
  have a: "rows (A pbm) = 0 \<Longrightarrow> preflight pbm = Inl Empty_reduction"
    using len by (simp add: preflight_def vec_sub_def minCoeff_def)
  have b: "preflight pbm = Inl Empty_reduction \<Longrightarrow> rows (A pbm) = 0"
  proof (rule ccontr)
    assume pf: "preflight pbm = Inl Empty_reduction" and "rows (A pbm) \<noteq> 0"
    then have ne: "l pbm \<noteq> []" "u pbm \<noteq> []" using len by auto
    then have "vec_sub (u pbm) (l pbm) \<noteq> []"
      by (cases "l pbm"; cases "u pbm") (auto simp: vec_sub_def)
    then obtain d lm um where "minCoeff (vec_sub (u pbm) (l pbm)) = Some d"
        "maxCoeff (l pbm) = Some lm" "minCoeff (u pbm) = Some um"
      using ne minCoeff_None maxCoeff_None by (metis not_Some_eq)
    then show False using pf by (simp add: preflight_def split: if_splits)
  qed
  show ?thesis using a b by (auto simp: solveQP_def)
qed

theorem preflight_needs_a_constraint_witness:
  "wf_problem qp_unconstrained \<and> rows (A qp_unconstrained) = 0
   \<and> preflight qp_unconstrained = Inl Empty_reduction
   \<and> solveQP sysvx_small qp_unconstrained default_params None = Some (Inl Empty_reduction)"
proof -
  have a: "wf_problem qp_unconstrained" "rows (A qp_unconstrained) = 0"
    by (simp_all add: spec_defs example_defs)
  show ?thesis
    using a preflight_needs_a_constraint[OF a(1), of sysvx_small default_params None] by simp
qed

section \<open>Polishing\<close>

subsection \<open>The active set\<close>

lemma count_active_filter:
  "count_active d m
     = (length (filter (\<lambda>i. d ! i < 0) [0..<m]), length (filter (\<lambda>i. d ! i > 0) [0..<m]))"
  by (induction m) (simp_all add: count_active_def)

lemma take_Suc_update:
  assumes "n < length xs"
  shows "take (Suc n) (xs[n := a]) = take n xs @ [a]"
  using assms by (simp add: take_Suc_conv_app_nth)

lemma fill_LU_idx_prefix:
  fixes d :: "'s::{zero,ord} list" and nl :: nat
  defines "f \<equiv> (\<lambda>idx (lcntr, ucntr, LU_idx).
          let (lcntr', LU_idx') =
                (if d ! idx < 0 then (lcntr + 1, LU_idx[lcntr := idx]) else (lcntr, LU_idx))
          in if d ! idx > 0 then (lcntr', ucntr + 1, LU_idx'[nl + ucntr := idx])
             else (lcntr', ucntr, LU_idx'))"
  assumes "length init = nl + nu"
    and "length (filter (\<lambda>i. d ! i < 0) [0..<k]) \<le> nl"
    and "length (filter (\<lambda>i. d ! i > 0) [0..<k]) \<le> nu"
  shows "\<exists>LU. fold f [0..<k] (0, 0, init)
            = (length (filter (\<lambda>i. d ! i < 0) [0..<k]), length (filter (\<lambda>i. d ! i > 0) [0..<k]), LU)
          \<and> length LU = nl + nu
          \<and> take (length (filter (\<lambda>i. d ! i < 0) [0..<k])) LU = filter (\<lambda>i. d ! i < 0) [0..<k]
          \<and> take (length (filter (\<lambda>i. d ! i > 0) [0..<k])) (drop nl LU)
              = filter (\<lambda>i. d ! i > 0) [0..<k]"
  using assms(3,4)
proof (induction k)
  case 0
  then show ?case using assms(2) by simp
next
  case (Suc k)
  let ?Lk = "filter (\<lambda>i. d ! i < 0) [0..<k]" and ?Uk = "filter (\<lambda>i. d ! i > 0) [0..<k]"
  from Suc.prems have le: "length ?Lk \<le> nl" "length ?Uk \<le> nu" by (auto split: if_splits)
  from Suc.IH[OF le] obtain LU where
    st: "fold f [0..<k] (0, 0, init) = (length ?Lk, length ?Uk, LU)"
    and len: "length LU = nl + nu"
    and tl: "take (length ?Lk) LU = ?Lk"
    and tu: "take (length ?Uk) (drop nl LU) = ?Uk"
    by blast
  show ?case
  proof (cases "d ! k < 0")
    case neg: True
    with Suc.prems have lt: "length ?Lk < nl" by simp
    show ?thesis
    proof (cases "d ! k > 0")
      case True
      with Suc.prems have ltu: "length ?Uk < nu" by simp
      show ?thesis
        using neg True st len tl tu lt ltu
        by (simp add: f_def take_Suc_update drop_update_swap)
    next
      case False
      show ?thesis
        using neg False st len tl tu lt
        by (simp add: f_def take_Suc_update)
    qed
  next
    case nneg: False
    show ?thesis
    proof (cases "d ! k > 0")
      case True
      with Suc.prems have ltu: "length ?Uk < nu" by simp
      show ?thesis
        using nneg True st len tl tu le ltu
        by (simp add: f_def take_Suc_update drop_update_swap)
    next
      case False
      show ?thesis
        using nneg False st len tl tu
        by (simp add: f_def)
    qed
  qed
qed

lemma fill_LU_idx_filter:
  fixes d :: "'s::{zero,ord} list"
  assumes "nl = length (filter (\<lambda>i. d ! i < 0) [0..<m])"
    and "nu = length (filter (\<lambda>i. d ! i > 0) [0..<m])"
  shows "fill_LU_idx d m nl nu
           = filter (\<lambda>i. d ! i < 0) [0..<m] @ filter (\<lambda>i. d ! i > 0) [0..<m]"
proof -
  obtain LU where
    st: "fill_LU_idx d m nl nu = LU"
    and len: "length LU = nl + nu"
    and tl: "take nl LU = filter (\<lambda>i. d ! i < 0) [0..<m]"
    and tu: "take nu (drop nl LU) = filter (\<lambda>i. d ! i > 0) [0..<m]"
    using fill_LU_idx_prefix[of "replicate (nl + nu) undefined" nl nu d m] assms
    by (auto simp: fill_LU_idx_def)
  have "LU = take nl LU @ take nu (drop nl LU)"
    using len by simp
  then show ?thesis using st tl tu by simp
qed

lemma active_set_filter:
  "active_set sol m = (length (L_set sol m), length (U_set sol m), L_set sol m @ U_set sol m)"
  by (simp add: active_set_def count_active_filter fill_LU_idx_filter L_set_def U_set_def)

lemma L_set_U_set_props:
  assumes len: "length (dual sol) = m"
    and sign: "\<forall>d \<in> set (dual sol). \<not> (d < 0 \<and> 0 < d)"
  shows "distinct (L_set sol m @ U_set sol m)"
    and "set (L_set sol m @ U_set sol m) \<subseteq> {..<m}"
proof -
  have "\<not> (dual sol ! i < 0 \<and> 0 < dual sol ! i)" if "i < m" for i
    using that len sign nth_mem[of i "dual sol"] by blast
  then have "set (L_set sol m) \<inter> set (U_set sol m) = {}"
    by (auto simp: L_set_def U_set_def)
  then show "distinct (L_set sol m @ U_set sol m)"
    by (simp add: L_set_def U_set_def)
  show "set (L_set sol m @ U_set sol m) \<subseteq> {..<m}"
    by (auto simp: L_set_def U_set_def)
qed

lemma polishQP_active_set:
  "polishQP sysvx pbm sol prm =
     (let m = rows (A pbm); n = cols (A pbm);
          nl = length (L_set sol m); nu = length (U_set sol m);
          LU_idx = L_set sol m @ U_set sol m;
          ldlt = LDLTLapack_init sysvx (reduced_Hp pbm sol prm)
      in if info ldlt \<noteq> 0 then Some (sol\<lparr>code := PolishFailed\<rparr>)
         else map_option (update_solution sol n nl nu LU_idx)
                (polish_refine ldlt (reduced_H pbm sol) (reduced_h pbm sol) (polish_iter prm) 0
                   (replicate (n + nl + nu) 0)))"
  by (simp add: polishQP_def reduced_Hp_def reduced_H_def reduced_h_def active_set_filter
      count_active_filter fill_LU_idx_filter L_set_def U_set_def Let_def)

subsection \<open>A failed factorization\<close>

text \<open>
  C6. When the factorization of the perturbed matrix reports \<open>info \<noteq> 0\<close>, \<^verbatim>\<open>polishQP\<close>
  returns the solution it was given with the code \<^verbatim>\<open>PolishFailed\<close>: primal and dual
  are those on entry.
\<close>

theorem polish_failed_keeps_solution:
  assumes "info (LDLTLapack_init sysvx (reduced_Hp pbm sol prm)) \<noteq> 0"
  shows "polishQP sysvx pbm sol prm = Some (sol\<lparr>code := PolishFailed\<rparr>)
         \<and> primal (sol\<lparr>code := PolishFailed\<rparr>) = primal sol
         \<and> dual (sol\<lparr>code := PolishFailed\<rparr>) = dual sol"
  using assms
  by (simp add: polishQP_def reduced_Hp_def active_set_def Let_def split: prod.splits)

theorem polish_failed_keeps_solution_witness:
  "info (LDLTLapack_init sysvx_small
      (reduced_Hp qp_zero_cost \<lparr>code = Optimal, primal = [Fin 0], dual = [Fin 0]\<rparr>
         (default_params\<lparr>delta := Fin 0\<rparr>))) \<noteq> 0
   \<and> polishQP sysvx_small qp_zero_cost \<lparr>code = Optimal, primal = [Fin 0], dual = [Fin 0]\<rparr>
        (default_params\<lparr>delta := Fin 0\<rparr>)
       = Some \<lparr>code = PolishFailed, primal = [Fin 0], dual = [Fin 0]\<rparr>"
proof -
  have a: "info (LDLTLapack_init sysvx_small
      (reduced_Hp qp_zero_cost \<lparr>code = Optimal, primal = [Fin 0], dual = [Fin 0]\<rparr>
         (default_params\<lparr>delta := Fin 0\<rparr>))) \<noteq> 0"
    by (simp add: qp_defs spec_defs example_defs eigen_defs xreal_defs)
  show ?thesis
    using a polish_failed_keeps_solution[OF a] by simp
qed

subsection \<open>The refinement loop and the update\<close>

lemma polish_refine_terminates:
  assumes "unat n_iter < 2 ^ 32" and "unat i \<le> unat n_iter"
  shows "polish_refine ldlt H h n_iter i t_hat
           = Some ((refine_step ldlt H h ^^ (unat n_iter - unat i)) t_hat)"
  using assms(2)
proof (induction "unat n_iter - unat i" arbitrary: i t_hat)
  case 0
  then have "ucast i = n_iter" by (simp add: ucast_eq_iff_unat)
  then show ?case using 0 by (subst polish_refine.simps) simp
next
  case (Suc k)
  then have lt: "unat i < unat n_iter" by simp
  then have ne: "ucast i \<noteq> n_iter" by (simp add: ucast_eq_iff_unat)
  have "unat i + unat (1::32 word) < 2 ^ LENGTH(32)"
    using lt assms(1) by simp
  then have suc: "unat (i + 1) = unat i + 1"
    using unat_add_lem[of i 1] by simp
  have "polish_refine ldlt H h n_iter (i + 1) (refine_step ldlt H h t_hat)
          = Some ((refine_step ldlt H h ^^ (unat n_iter - unat (i + 1))) (refine_step ldlt H h t_hat))"
    using Suc.hyps(2) suc lt by (intro Suc.hyps(1)) simp_all
  moreover have "unat n_iter - unat (i + 1) = k" using Suc.hyps(2) suc by simp
  ultimately show ?case
    using ne Suc.hyps(2)[symmetric] by (subst polish_refine.simps) (simp add: funpow_swap1)
qed

lemma polish_refine_diverges:
  assumes "2 ^ 32 \<le> unat n_iter"
  shows "polish_refine ldlt H h n_iter i t_hat = None"
proof (rule ccontr)
  assume "polish_refine ldlt H h n_iter i t_hat \<noteq> None"
  then obtain r where r: "polish_refine ldlt H h n_iter i t_hat = Some r" by auto
  have "2 ^ 32 \<le> unat n_iter \<longrightarrow> False"
    by (rule polish_refine.raw_induct[OF _ r, where P = "\<lambda>ldlt H h n_iter i t_hat r. 2 ^ 32 \<le> unat n_iter \<longrightarrow> False"])
       (auto simp: counter_never_reaches)
  then show False using assms by simp
qed

lemma fold_write_length:
  "length (fold (\<lambda>i d. d[idx ! (off + i) := t ! (n + off + i)]) [0..<k] d0) = length d0"
  by (induction k) simp_all

lemma fold_write_other:
  assumes "\<forall>j < k. idx ! (off + j) \<noteq> p"
  shows "fold (\<lambda>i d. d[idx ! (off + i) := t ! (n + off + i)]) [0..<k] d0 ! p = d0 ! p"
  using assms by (induction k) simp_all

lemma fold_write_hit:
  assumes "distinct (map (\<lambda>j. idx ! (off + j)) [0..<k])"
    and "\<forall>j < k. idx ! (off + j) < length d0"
    and "j < k"
  shows "fold (\<lambda>i d. d[idx ! (off + i) := t ! (n + off + i)]) [0..<k] d0 ! (idx ! (off + j))
           = t ! (n + off + j)"
  using assms
proof (induction k)
  case 0
  then show ?case by simp
next
  case (Suc k)
  show ?case
  proof (cases "j = k")
    case True
    then show ?thesis using Suc.prems by (simp add: fold_write_length)
  next
    case False
    then have jk: "j < k" using Suc.prems by simp
    have "idx ! (off + k) \<noteq> idx ! (off + j)"
      using Suc.prems(1) jk by auto
    then show ?thesis
      using Suc.IH jk Suc.prems by simp
  qed
qed

lemma update_solution_props:
  fixes sol :: "'s Solution" and n :: nat and t :: "'s list"
  assumes dist: "distinct LU"
    and bound: "set LU \<subseteq> {..<length (dual sol)}"
    and len: "length LU = nl + nu"
  defines "sol' \<equiv> update_solution sol n nl nu LU t"
  shows "primal sol' = head n t"
    and "code sol' = code sol"
    and "length (dual sol') = length (dual sol)"
    and "\<forall>j < nl + nu. dual sol' ! (LU ! j) = t ! (n + j)"
    and "\<forall>i. i \<notin> set LU \<longrightarrow> dual sol' ! i = dual sol ! i"
proof -
  let ?d1 = "fold (\<lambda>i d. d[LU ! i := t ! (n + i)]) [0..<nl] (dual sol)"
  let ?d2 = "fold (\<lambda>i d. d[LU ! (nl + i) := t ! (n + nl + i)]) [0..<nu] ?d1"
  have d: "dual sol' = ?d2" by (simp add: sol'_def update_solution_def)
  have l1: "length ?d1 = length (dual sol)"
    using fold_write_length[of LU 0 t n nl "dual sol"] by simp
  have l2: "length ?d2 = length ?d1"
    using fold_write_length[of LU nl t n nu ?d1] by (simp add: add.assoc)
  show "primal sol' = head n t" "code sol' = code sol"
    by (simp_all add: sol'_def update_solution_def)
  show "length (dual sol') = length (dual sol)"
    using d l1 l2 by simp
  have inb: "LU ! j < length (dual sol)" if "j < nl + nu" for j
  proof -
    have "LU ! j \<in> set LU" using that len by simp
    then show ?thesis using bound by auto
  qed
  have neq: "LU ! a \<noteq> LU ! b" if "a < nl + nu" "b < nl + nu" "a \<noteq> b" for a b
    using that dist len by (simp add: nth_eq_iff_index_eq)
  have neq1: "LU ! a \<noteq> LU ! b" if "a < nl" "b < nl" "a \<noteq> b" for a b
    using that neq[of a b] by simp
  have neq2: "LU ! (nl + a) \<noteq> LU ! (nl + b)" if "a < nu" "b < nu" "a \<noteq> b" for a b
    using that neq[of "nl + a" "nl + b"] by simp
  have neq12: "LU ! (nl + b) \<noteq> LU ! a" if "a < nl" "b < nu" for a b
    using that neq[of "nl + b" a] by simp
  have dist1: "distinct (map (\<lambda>j. LU ! (0 + j)) [0..<nl])"
    unfolding distinct_map inj_on_def using neq1 by fastforce
  have dist2: "distinct (map (\<lambda>j. LU ! (nl + j)) [0..<nu])"
    unfolding distinct_map inj_on_def using neq2 by fastforce
  show "\<forall>j < nl + nu. dual sol' ! (LU ! j) = t ! (n + j)"
  proof (intro allI impI)
    fix j assume j: "j < nl + nu"
    show "dual sol' ! (LU ! j) = t ! (n + j)"
    proof (cases "j < nl")
      case True
      have "\<forall>i < nu. LU ! (nl + i) \<noteq> LU ! j"
        using neq12 True by auto
      then have "?d2 ! (LU ! j) = ?d1 ! (LU ! j)"
        using fold_write_other[of nu LU nl "LU ! j" t n ?d1] by (simp add: add.assoc)
      also have "\<dots> = t ! (n + j)"
        using fold_write_hit[of LU 0 nl "dual sol" j t n] dist1 inb True by simp
      finally show ?thesis using d by simp
    next
      case False
      then obtain i where i: "j = nl + i" "i < nu" using j by (metis add_diff_inverse_nat nat_add_left_cancel_less)
      have "?d2 ! (LU ! (nl + i)) = t ! (n + nl + i)"
        using fold_write_hit[of LU nl nu ?d1 i t n] dist2 inb i l1 by (simp add: add.assoc)
      then show ?thesis using d i by (simp add: add.assoc)
    qed
  qed
  show "\<forall>i. i \<notin> set LU \<longrightarrow> dual sol' ! i = dual sol ! i"
  proof (intro allI impI)
    fix i assume ni: "i \<notin> set LU"
    have a: "\<forall>j < nu. LU ! (nl + j) \<noteq> i" "\<forall>j < nl. LU ! (0 + j) \<noteq> i"
      using ni len nth_mem[of _ LU] by auto
    have "?d2 ! i = ?d1 ! i"
      using fold_write_other[of nu LU nl i t n ?d1] a(1) by (simp add: add.assoc)
    also have "\<dots> = dual sol ! i"
      using fold_write_other[of nl LU 0 i t n "dual sol"] a(2) by simp
    finally show "dual sol' ! i = dual sol ! i" using d by simp
  qed
qed

text \<open>
  X3. When the factorization succeeds, the active set of \<^verbatim>\<open>polishQP\<close> is \<open>nl = |L|\<close>,
  \<open>nu = |U|\<close> and \<^verbatim>\<open>LU_idx\<close> = the indices of \<open>L\<close> followed by those of \<open>U\<close>; the result is
  the solution updated from the vector \<open>t\<close> that the refinement loop ends with, which for
  \<open>polish_iter < 2^32\<close> is \<open>polish_iter\<close> steps from zero; and the update sets the primal to
  the first \<open>n\<close> entries of \<open>t\<close> and the dual of constraint \<^verbatim>\<open>LU_idx[j]\<close> to \<open>t[n + j]\<close>, and
  leaves the other duals and the code as they were. No dual is both negative and positive.
\<close>

theorem polish_updates_active_set:
  assumes fact: "info (LDLTLapack_init sysvx (reduced_Hp pbm sol prm)) = 0"
    and len: "length (dual sol) = rows (A pbm)"
    and sign: "\<forall>d \<in> set (dual sol). \<not> (d < 0 \<and> 0 < d)"
  shows "let m = rows (A pbm); n = cols (A pbm);
             nl = length (L_set sol m); nu = length (U_set sol m);
             LU_idx = L_set sol m @ U_set sol m;
             ldlt = LDLTLapack_init sysvx (reduced_Hp pbm sol prm);
             refined = polish_refine ldlt (reduced_H pbm sol) (reduced_h pbm sol) (polish_iter prm) 0
                         (replicate (n + nl + nu) 0)
         in active_set sol m = (nl, nu, LU_idx)
            \<and> polishQP sysvx pbm sol prm = map_option (update_solution sol n nl nu LU_idx) refined
            \<and> (unat (polish_iter prm) < 2 ^ 32 \<longrightarrow>
                 refined = Some ((refine_step ldlt (reduced_H pbm sol) (reduced_h pbm sol)
                                    ^^ unat (polish_iter prm)) (replicate (n + nl + nu) 0)))
            \<and> (\<forall>t. primal (update_solution sol n nl nu LU_idx t) = head n t
                   \<and> code (update_solution sol n nl nu LU_idx t) = code sol
                   \<and> length (dual (update_solution sol n nl nu LU_idx t)) = m
                   \<and> (\<forall>j < nl + nu. dual (update_solution sol n nl nu LU_idx t) ! (LU_idx ! j) = t ! (n + j))
                   \<and> (\<forall>i < m. i \<notin> set LU_idx \<longrightarrow>
                         dual (update_solution sol n nl nu LU_idx t) ! i = dual sol ! i))"
proof -
  let ?m = "rows (A pbm)"
  let ?LU = "L_set sol ?m @ U_set sol ?m"
  have dist: "distinct ?LU" and bound: "set ?LU \<subseteq> {..<length (dual sol)}"
    using L_set_U_set_props[OF len sign] len by simp_all
  have lenLU: "length ?LU = length (L_set sol ?m) + length (U_set sol ?m)" by simp
  note props = update_solution_props[OF dist bound lenLU]
  let ?ldlt = "LDLTLapack_init sysvx (reduced_Hp pbm sol prm)"
  let ?t0 = "replicate (cols (A pbm) + length (L_set sol ?m) + length (U_set sol ?m)) 0"
  have ends: "unat (polish_iter prm) < 2 ^ 32 \<Longrightarrow>
      polish_refine ?ldlt (reduced_H pbm sol) (reduced_h pbm sol) (polish_iter prm) 0 ?t0
        = Some ((refine_step ?ldlt (reduced_H pbm sol) (reduced_h pbm sol)
                   ^^ unat (polish_iter prm)) ?t0)"
    using polish_refine_terminates[of "polish_iter prm" 0 ?ldlt "reduced_H pbm sol"
        "reduced_h pbm sol" ?t0] by simp
  show ?thesis
    unfolding Let_def
    using fact len props ends
    by (simp add: active_set_filter polishQP_active_set Let_def)
qed

theorem polish_updates_active_set_witness:
  "info (LDLTLapack_init sysvx_cramer3
      (reduced_Hp qp_three_rows sol_three_rows (default_params\<lparr>polish_iter := 1, delta := Fin 1\<rparr>))) = 0
   \<and> length (dual sol_three_rows) = rows (A qp_three_rows)
   \<and> unat (polish_iter (default_params\<lparr>polish_iter := 1, delta := Fin 1\<rparr>)) < 2 ^ 32
   \<and> L_set sol_three_rows (rows (A qp_three_rows)) = [0]
   \<and> U_set sol_three_rows (rows (A qp_three_rows)) = [2]
   \<and> active_set sol_three_rows (rows (A qp_three_rows)) = (1, 1, [0, 2])
   \<and> polishQP sysvx_cramer3 qp_three_rows sol_three_rows
         (default_params\<lparr>polish_iter := 1, delta := Fin 1\<rparr>)
       = Some \<lparr>code = Optimal, primal = [Fin 0], dual = [Fin 0, Fin 0, Fin (- 1)]\<rparr>"
proof -
  let ?prm = "default_params\<lparr>polish_iter := 1, delta := Fin 1\<rparr>"
  let ?ldlt = "LDLTLapack_init sysvx_cramer3 (reduced_Hp qp_three_rows sol_three_rows ?prm)"
  have a: "info ?ldlt = 0"
    by (simp add: eval_defs upt_rec)
  have b: "length (dual sol_three_rows) = rows (A qp_three_rows)"
    by (simp add: example_defs)
  have c: "\<forall>d \<in> set (dual sol_three_rows). \<not> (d < 0 \<and> 0 < d)"
    by (simp add: example_defs xreal_defs)
  have cap: "unat (polish_iter ?prm) < 2 ^ 32"
    by (simp add: example_defs)
  have L: "L_set sol_three_rows (rows (A qp_three_rows)) = [0]"
      "U_set sol_three_rows (rows (A qp_three_rows)) = [2]"
    by (simp_all add: L_set_def U_set_def example_defs xreal_defs upt_rec)
  have n: "cols (A qp_three_rows) = 1" by (simp add: example_defs)
  note th = polish_updates_active_set[OF a b c, unfolded Let_def L n]
  have act: "active_set sol_three_rows (rows (A qp_three_rows)) = (1, 1, [0, 2])"
    using th[THEN conjunct1] by simp
  let ?t0 = "replicate (1 + length [0::nat] + length [2::nat]) (0::xreal)"
  let ?H = "reduced_H qp_three_rows sol_three_rows"
  let ?h = "reduced_h qp_three_rows sol_three_rows"
  have ref: "polish_refine ?ldlt ?H ?h (polish_iter ?prm) 0 ?t0
               = Some ((refine_step ?ldlt ?H ?h ^^ unat (polish_iter ?prm)) ?t0)"
    using th[THEN conjunct2, THEN conjunct2, THEN conjunct1] cap by blast
  have pq: "polishQP sysvx_cramer3 qp_three_rows sol_three_rows ?prm
              = Some (update_solution sol_three_rows 1 (length [0::nat]) (length [2::nat]) ([0] @ [2])
                        ((refine_step ?ldlt ?H ?h ^^ unat (polish_iter ?prm)) ?t0))"
    using th[THEN conjunct2, THEN conjunct1] by (simp only: ref option.map)
  have val: "update_solution sol_three_rows 1 (length [0::nat]) (length [2::nat]) ([0] @ [2])
               ((refine_step ?ldlt ?H ?h ^^ unat (polish_iter ?prm)) ?t0)
             = \<lparr>code = Optimal, primal = [Fin 0], dual = [Fin 0, Fin 0, Fin (- 1)]\<rparr>"
    by (simp add: eval_defs upt_rec)
  show ?thesis
    using a b cap L act pq val by simp
qed

text \<open>
  C7 does not hold of the code for \<^verbatim>\<open>polish_iter \<ge> 2^32\<close>. Here the factorization
  succeeds and the duals are one negative and one zero, but the counter of the refinement
  loop (line 498) is a 32-bit \<^verbatim>\<open>unsigned int\<close> that never equals \<^verbatim>\<open>polish_iter = 2^32\<close>:
  the loop does not end, and \<^verbatim>\<open>polishQP\<close> never updates the solution.
\<close>

theorem polish_iter_never_returns:
  "info (LDLTLapack_init sysvx_small
      (reduced_Hp qp_two_rows sol_two_rows (default_params\<lparr>polish_iter := 2 ^ 32\<rparr>))) = 0
   \<and> length (dual sol_two_rows) = rows (A qp_two_rows)
   \<and> polishQP sysvx_small qp_two_rows sol_two_rows (default_params\<lparr>polish_iter := 2 ^ 32\<rparr>) = None"
proof -
  let ?prm = "default_params\<lparr>polish_iter := 2 ^ 32\<rparr>"
  have a: "info (LDLTLapack_init sysvx_small (reduced_Hp qp_two_rows sol_two_rows ?prm)) = 0"
    by (simp add: eval_defs upt_rec)
  have b: "length (dual sol_two_rows) = rows (A qp_two_rows)"
    by (simp add: example_defs)
  have "2 ^ 32 \<le> unat (polish_iter ?prm)"
    by (simp add: example_defs)
  then have "polishQP sysvx_small qp_two_rows sol_two_rows ?prm = None"
    using a by (simp add: polishQP_active_set polish_refine_diverges Let_def)
  then show ?thesis using a b by simp
qed

section \<open>The termination checks\<close>

lemma admm_iter_no_check:
  assumes "stop_check_iter prm \<noteq> 0" and "\<not> check_due prm i"
  shows "admm_iter sysvx ldlt pbm prm i x y z
           = Some (case admm_update ldlt pbm prm x y z of (a, b, c) \<Rightarrow> Commit a b c)"
  using assms check_due_word[OF assms(1), of i]
  by (simp add: admm_iter_def split: prod.splits)

lemma admm_iter_check:
  assumes "check_due prm i" and "admm_update ldlt pbm prm x y z = (x_next, y_next, z_next)"
  shows "admm_iter sysvx ldlt pbm prm i x y z =
     (if optimal_test pbm prm x y z then
        (if polish prm
         then map_option Return (polishQP sysvx pbm \<lparr>code = Optimal, primal = x, dual = y\<rparr> prm)
         else Some (Return \<lparr>code = Optimal, primal = x, dual = y\<rparr>))
      else if primal_infeasible_test pbm prm (vec_sub y_next y) then
        Some (Return \<lparr>code = PrimalInfeasible, primal = [], dual = []\<rparr>)
      else if dual_infeasible_test pbm prm (vec_sub x_next x) then
        Some (Return \<lparr>code = DualInfeasible, primal = [], dual = []\<rparr>)
      else Some (Commit x_next y_next z_next))"
  using assms check_due_word[OF check_due_nonzero[OF assms(1)], of i] check_due_nonzero[OF assms(1)]
  by (simp add: admm_iter_def Let_def)

lemma optimal_test_spec: "optimal_test pbm prm x y z \<longleftrightarrow> optimal_spec pbm prm x y z"
  by (simp add: optimal_test_def optimal_spec_def Let_def)






subsection \<open>Optimality\<close>

text \<open>
  C1, as amended. At a termination check, when the two conditions hold the solver forms
  the solution with the code \<^verbatim>\<open>Optimal\<close> and the current \<open>x\<close> and \<open>y\<close> and returns it,
  through \<^verbatim>\<open>polishQP\<close> when \<^verbatim>\<open>prm.polish\<close> is set; when they do not hold, the iteration
  returns \<^verbatim>\<open>PrimalInfeasible\<close> or \<^verbatim>\<open>DualInfeasible\<close> or commits the next iterates.
\<close>

theorem optimal_iff_conditions:
  assumes due: "check_due prm i"
  shows "(optimal_spec pbm prm x y z \<longrightarrow>
            admm_iter sysvx ldlt pbm prm i x y z
              = (if polish prm
                 then map_option Return
                        (polishQP sysvx pbm \<lparr>code = Optimal, primal = x, dual = y\<rparr> prm)
                 else Some (Return \<lparr>code = Optimal, primal = x, dual = y\<rparr>)))
         \<and> (\<not> optimal_spec pbm prm x y z \<longrightarrow>
              (\<exists>x_next y_next z_next.
                 admm_iter sysvx ldlt pbm prm i x y z
                   \<in> {Some (Return \<lparr>code = PrimalInfeasible, primal = [], dual = []\<rparr>),
                       Some (Return \<lparr>code = DualInfeasible, primal = [], dual = []\<rparr>),
                       Some (Commit x_next y_next z_next)}))"
proof -
  obtain x_next y_next z_next where
    upd: "admm_update ldlt pbm prm x y z = (x_next, y_next, z_next)"
    by (cases "admm_update ldlt pbm prm x y z") auto
  show ?thesis
    unfolding admm_iter_check[OF due upd] optimal_test_spec by auto
qed

theorem optimal_iff_conditions_witness:
  "check_due (default_params\<lparr>stop_check_iter := 1, polish := False\<rparr>) 0
   \<and> optimal_spec qp_box (default_params\<lparr>stop_check_iter := 1, polish := False\<rparr>)
         [Fin 0] [Fin 0] [Fin 0]
   \<and> admm_iter sysvx_small
         (LDLTLapack_init sysvx_small
            (kkt_H qp_box (default_params\<lparr>stop_check_iter := 1, polish := False\<rparr>)))
         qp_box (default_params\<lparr>stop_check_iter := 1, polish := False\<rparr>) 0 [Fin 0] [Fin 0] [Fin 0]
       = Some (Return \<lparr>code = Optimal, primal = [Fin 0], dual = [Fin 0]\<rparr>)
   \<and> \<not> optimal_spec qp_free (default_params\<lparr>stop_check_iter := 1, polish := False\<rparr>)
         [Fin 0] [Fin 0] [Fin 0]"
proof -
  let ?prm = "default_params\<lparr>stop_check_iter := 1, polish := False\<rparr>"
  have due: "check_due ?prm 0"
    by (simp add: check_due_def example_defs)
  have opt: "optimal_spec qp_box ?prm [Fin 0] [Fin 0] [Fin 0]"
    by (simp add: eval_defs)
  have nopt: "\<not> optimal_spec qp_free ?prm [Fin 0] [Fin 0] [Fin 0]"
    by (simp add: eval_defs)
  have np: "\<not> polish ?prm" by (simp add: example_defs)
  show ?thesis
    using due opt nopt np
      optimal_iff_conditions[OF due, of qp_box "[Fin 0]" "[Fin 0]" "[Fin 0]" sysvx_small
        "LDLTLapack_init sysvx_small (kkt_H qp_box ?prm)"]
    by simp
qed

text \<open>
  C1 as stated fails when \<^verbatim>\<open>prm.polish\<close> is set, as it is by default. In iteration 0 of
  the first run the conditions hold for \<open>x = [0]\<close>, the solver declares \<^verbatim>\<open>Optimal\<close> and
  returns the polished primal \<open>- q / (P + delta)\<close>, not \<open>x\<close>; in the second run the
  polishing fails and the code returned is \<^verbatim>\<open>PolishFailed\<close>.
\<close>

theorem optimal_iff_conditions_counterexample:
  "check_due (default_params\<lparr>eps_abs := Fin 1, stop_check_iter := 1, polish_iter := 1\<rparr>) 0
   \<and> optimal_spec qp_free (default_params\<lparr>eps_abs := Fin 1, stop_check_iter := 1, polish_iter := 1\<rparr>)
         [Fin 0] [Fin 0] [Fin 0]
   \<and> admm_iter sysvx_small
         (LDLTLapack_init sysvx_small (kkt_H qp_free
            (default_params\<lparr>eps_abs := Fin 1, stop_check_iter := 1, polish_iter := 1\<rparr>)))
         qp_free (default_params\<lparr>eps_abs := Fin 1, stop_check_iter := 1, polish_iter := 1\<rparr>)
         0 [Fin 0] [Fin 0] [Fin 0]
       = Some (Return \<lparr>code = Optimal, primal = [Fin (- (1000000 / 2000001))], dual = [Fin 0]\<rparr>)
   \<and> solveQP sysvx_small qp_free
         (default_params\<lparr>eps_abs := Fin 1, stop_check_iter := 1, polish_iter := 1\<rparr>) None
       = Some (Inr \<lparr>code = Optimal, primal = [Fin (- (1000000 / 2000001))], dual = [Fin 0]\<rparr>)
   \<and> check_due (default_params\<lparr>stop_check_iter := 1, delta := Fin 0\<rparr>) 0
   \<and> optimal_spec qp_zero_cost (default_params\<lparr>stop_check_iter := 1, delta := Fin 0\<rparr>)
         [Fin 0] [Fin 0] [Fin 0]
   \<and> admm_iter sysvx_small
         (LDLTLapack_init sysvx_small (kkt_H qp_zero_cost
            (default_params\<lparr>stop_check_iter := 1, delta := Fin 0\<rparr>)))
         qp_zero_cost (default_params\<lparr>stop_check_iter := 1, delta := Fin 0\<rparr>)
         0 [Fin 0] [Fin 0] [Fin 0]
       = Some (Return \<lparr>code = PolishFailed, primal = [Fin 0], dual = [Fin 0]\<rparr>)
   \<and> solveQP sysvx_small qp_zero_cost (default_params\<lparr>stop_check_iter := 1, delta := Fin 0\<rparr>) None
       = Some (Inr \<lparr>code = PolishFailed, primal = [Fin 0], dual = [Fin 0]\<rparr>)"
  by (simp add: eval_defs admm_loop.simps polish_refine.simps)

subsection \<open>The primal certificate\<close>



subsection \<open>The dual certificate\<close>



section \<open>The loop\<close>

subsection \<open>A zero period\<close>

text \<open>
  C8, as amended. With \<^verbatim>\<open>stop_check_iter = 0\<close> and at least one iteration to run
  (\<^verbatim>\<open>max_iter \<noteq> 0\<close>), the first iteration takes the remainder of a division by zero.
\<close>

theorem zero_stop_check_iter_faults:
  assumes "preflight pbm = Inr False"
    and "info (LDLTLapack_init sysvx (kkt_H pbm prm)) = 0"
    and "stop_check_iter prm = 0"
    and "max_iter prm \<noteq> 0"
  shows "solveQP sysvx pbm prm hotstart = Some (Inl Remainder_by_zero)"
proof -
  have "admm_loop sysvx ldlt pbm prm 0 x y z = Some (Inl Remainder_by_zero)" for ldlt x y z
    using assms(3,4)
    by (subst admm_loop.simps) (simp add: admm_iter_def split: prod.splits)
  then show ?thesis
    using assms(1,2) by (simp add: solveQP_def Let_def split: option.splits)
qed

theorem zero_stop_check_iter_faults_witness:
  "preflight qp_box = Inr False
   \<and> info (LDLTLapack_init sysvx_small (kkt_H qp_box (default_params\<lparr>stop_check_iter := 0\<rparr>))) = 0
   \<and> stop_check_iter (default_params\<lparr>stop_check_iter := 0\<rparr>) = 0
   \<and> max_iter (default_params\<lparr>stop_check_iter := 0\<rparr>) \<noteq> 0
   \<and> solveQP sysvx_small qp_box (default_params\<lparr>stop_check_iter := 0\<rparr>) None
       = Some (Inl Remainder_by_zero)"
proof -
  have a: "preflight qp_box = Inr False"
    "info (LDLTLapack_init sysvx_small (kkt_H qp_box (default_params\<lparr>stop_check_iter := 0\<rparr>))) = 0"
    "stop_check_iter (default_params\<lparr>stop_check_iter := 0\<rparr>) = 0"
    "max_iter (default_params\<lparr>stop_check_iter := 0\<rparr>) \<noteq> 0"
    by (simp_all add: qp_defs example_defs eigen_defs xreal_defs)
  show ?thesis
    using a zero_stop_check_iter_faults[OF a, of None] by simp
qed

text \<open>
  C8 as stated fails for \<^verbatim>\<open>max_iter = 0\<close>: the loop body is never entered, and
  \<^verbatim>\<open>solveQP\<close> returns the initial iterate with \<^verbatim>\<open>MaxIterations\<close> although
  \<^verbatim>\<open>stop_check_iter = 0\<close>.
\<close>

theorem zero_stop_check_iter_counterexample:
  "preflight qp_box = Inr False
   \<and> info (LDLTLapack_init sysvx_small
        (kkt_H qp_box (default_params\<lparr>max_iter := 0, stop_check_iter := 0\<rparr>))) = 0
   \<and> stop_check_iter (default_params\<lparr>max_iter := 0, stop_check_iter := 0\<rparr>) = 0
   \<and> solveQP sysvx_small qp_box (default_params\<lparr>max_iter := 0, stop_check_iter := 0\<rparr>) None
       = Some (Inr \<lparr>code = MaxIterations, primal = [Fin 0], dual = [Fin 0]\<rparr>)"
  by (simp add: qp_defs example_defs eigen_defs xreal_defs admm_loop.simps)

subsection \<open>Runs that end\<close>

lemma admm_iter_Commit:
  assumes "admm_iter sysvx ldlt pbm prm i x y z = Some (Commit a b c)"
  shows "admm_update ldlt pbm prm x y z = (a, b, c)"
  using assms
  by (cases "admm_update ldlt pbm prm x y z")
     (auto simp: admm_iter_def Let_def split: if_splits)

lemma admm_state_Suc:
  "admm_state ldlt pbm prm (Suc k) (x, y, z)
     = admm_state ldlt pbm prm k (admm_update ldlt pbm prm x y z)"
  by (simp add: admm_state_def funpow_swap1)

lemma admm_loop_commits:
  fixes sysvx :: "'s::{zero,one,plus,minus,uminus,times,inverse,abs,ord,infinity} sysvx"
  assumes cap: "unat (max_iter prm) < 2 ^ 32"
    and "unat i \<le> unat (max_iter prm)"
    and "\<forall>k < unat (max_iter prm) - unat i.
           case admm_state ldlt pbm prm k (x, y, z) of
             (xk, yk, zk) \<Rightarrow>
               \<exists>a b c. admm_iter sysvx ldlt pbm prm (i + of_nat k) xk yk zk = Some (Commit a b c)"
  shows "admm_loop sysvx ldlt pbm prm i x y z =
           Some (Inr (case admm_state ldlt pbm prm (unat (max_iter prm) - unat i) (x, y, z) of
                        (xN, yN, zN) \<Rightarrow> \<lparr>code = MaxIterations, primal = xN, dual = yN\<rparr>))"
  using assms(2,3)
proof (induction "unat (max_iter prm) - unat i" arbitrary: i x y z)
  case 0
  then have "ucast i = max_iter prm" by (simp add: ucast_eq_iff_unat)
  then show ?case
    using 0 by (subst admm_loop.simps) (simp add: admm_state_def)
next
  case (Suc n)
  then have lt: "unat i < unat (max_iter prm)" by simp
  then have ne: "ucast i \<noteq> max_iter prm" by (simp add: ucast_eq_iff_unat)
  have "unat i + unat (1::32 word) < 2 ^ LENGTH(32)"
    using lt cap by simp
  then have suc: "unat (i + 1) = unat i + 1"
    using unat_add_lem[of i 1] by simp
  from Suc.prems(2) Suc.hyps(2) have "\<exists>a b c. admm_iter sysvx ldlt pbm prm i x y z = Some (Commit a b c)"
    by (auto simp: admm_state_def dest!: spec[of _ 0])
  then obtain a b c where it: "admm_iter sysvx ldlt pbm prm i x y z = Some (Commit a b c)"
    by blast
  then have upd: "admm_update ldlt pbm prm x y z = (a, b, c)" by (rule admm_iter_Commit)
  have n: "n = unat (max_iter prm) - unat (i + 1)" using Suc.hyps(2) suc by simp
  have le: "unat (i + 1) \<le> unat (max_iter prm)" using lt suc by simp
  have rest: "\<forall>k < unat (max_iter prm) - unat (i + 1).
           case admm_state ldlt pbm prm k (a, b, c) of
             (xk, yk, zk) \<Rightarrow>
               \<exists>a b c. admm_iter sysvx ldlt pbm prm (i + 1 + of_nat k) xk yk zk = Some (Commit a b c)"
  proof (intro allI impI)
    fix k assume "k < unat (max_iter prm) - unat (i + 1)"
    then have "Suc k < unat (max_iter prm) - unat i" using suc by simp
    then have "case admm_state ldlt pbm prm (Suc k) (x, y, z) of
             (xk, yk, zk) \<Rightarrow>
               \<exists>a b c. admm_iter sysvx ldlt pbm prm (i + of_nat (Suc k)) xk yk zk = Some (Commit a b c)"
      by (rule Suc.prems(2)[rule_format])
    then show "case admm_state ldlt pbm prm k (a, b, c) of
             (xk, yk, zk) \<Rightarrow>
               \<exists>a b c. admm_iter sysvx ldlt pbm prm (i + 1 + of_nat k) xk yk zk = Some (Commit a b c)"
      by (simp add: admm_state_Suc upd add.assoc)
  qed
  have "admm_loop sysvx ldlt pbm prm (i + 1) a b c =
           Some (Inr (case admm_state ldlt pbm prm (unat (max_iter prm) - unat (i + 1)) (a, b, c) of
                        (xN, yN, zN) \<Rightarrow> \<lparr>code = MaxIterations, primal = xN, dual = yN\<rparr>))"
    by (rule Suc.hyps(1)[OF n le rest])
  moreover have "admm_state ldlt pbm prm (unat (max_iter prm) - unat (i + 1)) (a, b, c)
      = admm_state ldlt pbm prm (unat (max_iter prm) - unat i) (x, y, z)"
    using n Suc.hyps(2)[symmetric] by (simp add: admm_state_Suc upd)
  ultimately show ?case
    using ne it by (subst admm_loop.simps) simp
qed

lemma solveQP_loop:
  assumes "preflight pbm = Inr False"
    and "info (LDLTLapack_init sysvx (kkt_H pbm prm)) = 0"
  shows "solveQP sysvx pbm prm hotstart =
           (case admm_init pbm hotstart of
              (x, y, z) \<Rightarrow> admm_loop sysvx (LDLTLapack_init sysvx (kkt_H pbm prm)) pbm prm 0 x y z)"
  using assms by (simp add: solveQP_def admm_init_def Let_def split: option.splits)

lemma solveQP_commits:
  fixes sysvx :: "'s::{zero,one,plus,minus,uminus,times,inverse,abs,ord,infinity} sysvx"
  assumes pre: "preflight pbm = Inr False"
    and fac: "info (LDLTLapack_init sysvx (kkt_H pbm prm)) = 0"
    and cap: "unat (max_iter prm) < 2 ^ 32"
    and never: "\<forall>k < unat (max_iter prm).
           case admm_state (LDLTLapack_init sysvx (kkt_H pbm prm)) pbm prm k (admm_init pbm hotstart) of
             (xk, yk, zk) \<Rightarrow>
               \<exists>a b c. admm_iter sysvx (LDLTLapack_init sysvx (kkt_H pbm prm)) pbm prm (of_nat k) xk yk zk
                         = Some (Commit a b c)"
  shows "solveQP sysvx pbm prm hotstart =
           Some (Inr (case admm_state (LDLTLapack_init sysvx (kkt_H pbm prm)) pbm prm
                             (unat (max_iter prm)) (admm_init pbm hotstart) of
                        (xN, yN, zN) \<Rightarrow> \<lparr>code = MaxIterations, primal = xN, dual = yN\<rparr>))"
proof -
  obtain x y z where init: "admm_init pbm hotstart = (x, y, z)"
    by (cases "admm_init pbm hotstart") auto
  show ?thesis
    using admm_loop_commits[where prm = prm and i = 0 and pbm = pbm and x = x and y = y
        and z = z and sysvx = sysvx and ldlt = "LDLTLapack_init sysvx (kkt_H pbm prm)"]
      cap never
    by (simp add: solveQP_loop[OF pre fac] init)
qed

subsection \<open>Runs that do not end\<close>

lemma admm_loop_None_ind:
  fixes sysvx :: "'s::{zero,one,plus,minus,uminus,times,inverse,abs,ord,infinity} sysvx"
  assumes r: "admm_loop sysvx ldlt pbm prm i x y z = Some r"
    and big: "2 ^ 32 \<le> unat (max_iter prm)"
    and commit: "\<And>i x y z. \<exists>x' y' z'. admm_iter sysvx ldlt pbm prm i x y z = Some (Commit x' y' z')"
  shows False
proof -
  define Q where "Q = (\<lambda>(sysvx::'s sysvx) ldlt pbm prm (i::32 word) (x::'s list) (y::'s list)
        (z::'s list) (r::fault + 's Solution).
      (\<forall>i x y z. \<exists>x' y' z'. admm_iter sysvx ldlt pbm prm i x y z = Some (Commit x' y' z'))
        \<and> 2 ^ 32 \<le> unat (max_iter prm) \<longrightarrow> False)"
  note ri = admm_loop.raw_induct[where P = Q and xa = "(((((((sysvx, ldlt), pbm), prm), i), x), y), z)" and ya = r, simplified]
  have "Q sysvx ldlt pbm prm i x y z r"
  proof (rule ri)
    show "admm_loop sysvx ldlt pbm prm i x y z = Some r" by (rule r)
  next
    fix f and sysvx :: "'s sysvx" and ldlt pbm prm i x y z r
    assume ih: "\<And>ldlt pbm prm i x y z b ya. f ldlt pbm prm i x y z b = Some ya \<Longrightarrow> Q ldlt pbm prm i x y z b ya"
      and body: "(if ucast i \<noteq> max_iter prm
      then case admm_iter sysvx ldlt pbm prm i x y z of None \<Rightarrow> None
           | Some (Return sol) \<Rightarrow> Some (Inr sol)
           | Some (Fault f) \<Rightarrow> Some (Inl f)
           | Some (Commit x_next y_next z_next) \<Rightarrow> f sysvx ldlt pbm prm (i + 1) x_next y_next z_next
      else Some (Inr \<lparr>code = MaxIterations, primal = x, dual = y\<rparr>)) = Some r"
    show "Q sysvx ldlt pbm prm i x y z r"
      unfolding Q_def
    proof
      assume a: "(\<forall>i x y z. \<exists>x' y' z'. admm_iter sysvx ldlt pbm prm i x y z = Some (Commit x' y' z'))
        \<and> 2 ^ 32 \<le> unat (max_iter prm)"
      then have ne: "ucast i \<noteq> max_iter prm" by (simp add: counter_never_reaches)
      from a obtain x' y' z' where "admm_iter sysvx ldlt pbm prm i x y z = Some (Commit x' y' z')"
        by blast
      with body ne have "f sysvx ldlt pbm prm (i + 1) x' y' z' = Some r" by simp
      from ih[OF this] a show False unfolding Q_def by blast
    qed
  qed
  then show False using big commit unfolding Q_def by blast
qed

lemma admm_loop_diverges:
  fixes sysvx :: "'s::{zero,one,plus,minus,uminus,times,inverse,abs,ord,infinity} sysvx"
  assumes "2 ^ 32 \<le> unat (max_iter prm)" and "2 ^ 32 < unat (stop_check_iter prm)"
  shows "admm_loop sysvx ldlt pbm prm i x y z = None"
proof (rule ccontr)
  assume "admm_loop sysvx ldlt pbm prm i x y z \<noteq> None"
  then obtain r where r: "admm_loop sysvx ldlt pbm prm i x y z = Some r" by auto
  have "\<exists>x' y' z'. admm_iter sysvx ldlt pbm prm i x y z = Some (Commit x' y' z')" for i x y z
    using admm_iter_no_check[OF no_check_large_period[OF assms(2)],
        where sysvx = sysvx and ldlt = ldlt and pbm = pbm and x = x and y = y and z = z and i = i]
    by (cases "admm_update ldlt pbm prm x y z") auto
  then show False
    using admm_loop_None_ind[OF r assms(1)] by blast
qed

lemma solveQP_diverges:
  fixes sysvx :: "'s::{zero,one,plus,minus,uminus,times,inverse,abs,ord,infinity} sysvx"
  assumes "preflight pbm = Inr False"
    and "info (LDLTLapack_init sysvx (kkt_H pbm prm)) = 0"
    and "2 ^ 32 \<le> unat (max_iter prm)" and "2 ^ 32 < unat (stop_check_iter prm)"
  shows "solveQP sysvx pbm prm hotstart = None"
  using assms(1,2) admm_loop_diverges[OF assms(3,4)]
  by (simp add: solveQP_def Let_def split: option.splits)

subsection \<open>The iteration cap\<close>

text \<open>
  C2 does not hold of the code for \<^verbatim>\<open>max_iter \<ge> 2^32\<close>. Here the check passes, the
  factorization succeeds, \<^verbatim>\<open>max_iter\<close> has its default \<open>2^64 - 1\<close> and the period is above
  \<open>2^32\<close>, so that no check is ever due and no stopping criterion is met. The 32-bit counter
  wraps before it equals \<^verbatim>\<open>max_iter\<close>: the loop does not end, and \<^verbatim>\<open>solveQP\<close> returns
  nothing instead of \<^verbatim>\<open>MaxIterations\<close>.
\<close>

theorem default_max_iter_never_returns:
  "preflight qp_box = Inr False
   \<and> info (LDLTLapack_init sysvx_small
        (kkt_H qp_box (default_params\<lparr>stop_check_iter := 2 ^ 33\<rparr>))) = 0
   \<and> max_iter (default_params\<lparr>stop_check_iter := 2 ^ 33\<rparr>) = 18446744073709551615
   \<and> solveQP sysvx_small qp_box (default_params\<lparr>stop_check_iter := 2 ^ 33\<rparr>) None = None"
proof -
  let ?prm = "default_params\<lparr>stop_check_iter := 2 ^ 33\<rparr>"
  have a: "preflight qp_box = Inr False"
    "info (LDLTLapack_init sysvx_small (kkt_H qp_box ?prm)) = 0"
    by (simp_all add: eval_defs)
  have b: "2 ^ 32 \<le> unat (max_iter ?prm)" "2 ^ 32 < unat (stop_check_iter ?prm)"
    by (simp_all add: example_defs)
  have "solveQP sysvx_small qp_box ?prm None = None"
    using a b by (rule solveQP_diverges)
  moreover have "max_iter ?prm = 18446744073709551615"
    by (simp add: example_defs)
  ultimately show ?thesis using a by simp
qed

text \<open>
  C9 does not hold of the code for \<^verbatim>\<open>max_iter \<ge> 2^32\<close>. Here the check passes, the
  factorization succeeds and \<^verbatim>\<open>max_iter = 2^32\<close> is below \<^verbatim>\<open>stop_check_iter = 2^32 + 1\<close>;
  no check is ever due, and \<^verbatim>\<open>solveQP\<close> does not return \<^verbatim>\<open>MaxIterations\<close>: it does not
  return.
\<close>

theorem max_iter_below_period_never_returns:
  "preflight qp_box = Inr False
   \<and> info (LDLTLapack_init sysvx_small
        (kkt_H qp_box (default_params\<lparr>max_iter := 2 ^ 32, stop_check_iter := 2 ^ 32 + 1\<rparr>))) = 0
   \<and> unat (max_iter (default_params\<lparr>max_iter := 2 ^ 32, stop_check_iter := 2 ^ 32 + 1\<rparr>))
     < unat (stop_check_iter (default_params\<lparr>max_iter := 2 ^ 32, stop_check_iter := 2 ^ 32 + 1\<rparr>))
   \<and> solveQP sysvx_small qp_box
         (default_params\<lparr>max_iter := 2 ^ 32, stop_check_iter := 2 ^ 32 + 1\<rparr>) None = None"
proof -
  let ?prm = "default_params\<lparr>max_iter := 2 ^ 32, stop_check_iter := 2 ^ 32 + 1\<rparr>"
  have a: "preflight qp_box = Inr False"
    "info (LDLTLapack_init sysvx_small (kkt_H qp_box ?prm)) = 0"
    by (simp_all add: eval_defs)
  have b: "2 ^ 32 \<le> unat (max_iter ?prm)" "2 ^ 32 < unat (stop_check_iter ?prm)"
    by (simp_all add: example_defs)
  have "solveQP sysvx_small qp_box ?prm None = None"
    using a b by (rule solveQP_diverges)
  moreover have "unat (max_iter ?prm) < unat (stop_check_iter ?prm)"
    by (simp add: example_defs)
  ultimately show ?thesis using a by simp
qed

text \<open>
  X1. Below \<open>2^32\<close> the cap holds: when the check passes, the factorization succeeds and
  none of the \<^verbatim>\<open>max_iter\<close> iterations returns, \<^verbatim>\<open>solveQP\<close> returns \<^verbatim>\<open>MaxIterations\<close>
  with the \<open>x\<close> and \<open>y\<close> committed last, after exactly \<^verbatim>\<open>max_iter\<close> updates.
\<close>

theorem max_iter_caps_iterations:
  fixes sysvx :: "'s::{zero,one,plus,minus,uminus,times,inverse,abs,ord,infinity} sysvx"
  assumes pre: "preflight pbm = Inr False"
    and fac: "info (LDLTLapack_init sysvx (kkt_H pbm prm)) = 0"
    and cap: "unat (max_iter prm) < 2 ^ 32"
    and never: "\<forall>k < unat (max_iter prm).
           case admm_state (LDLTLapack_init sysvx (kkt_H pbm prm)) pbm prm k (admm_init pbm hotstart) of
             (xk, yk, zk) \<Rightarrow>
               \<exists>a b c. admm_iter sysvx (LDLTLapack_init sysvx (kkt_H pbm prm)) pbm prm (of_nat k) xk yk zk
                         = Some (Commit a b c)"
  shows "solveQP sysvx pbm prm hotstart =
           Some (Inr (case admm_state (LDLTLapack_init sysvx (kkt_H pbm prm)) pbm prm
                             (unat (max_iter prm)) (admm_init pbm hotstart) of
                        (xN, yN, zN) \<Rightarrow> \<lparr>code = MaxIterations, primal = xN, dual = yN\<rparr>))"
  using assms by (rule solveQP_commits)

theorem max_iter_caps_iterations_witness:
  "preflight qp_box = Inr False
   \<and> info (LDLTLapack_init sysvx_small
        (kkt_H qp_box (default_params\<lparr>max_iter := 1, stop_check_iter := 2\<rparr>))) = 0
   \<and> unat (max_iter (default_params\<lparr>max_iter := 1, stop_check_iter := 2\<rparr>)) < 2 ^ 32
   \<and> admm_iter sysvx_small
         (LDLTLapack_init sysvx_small (kkt_H qp_box (default_params\<lparr>max_iter := 1, stop_check_iter := 2\<rparr>)))
         qp_box (default_params\<lparr>max_iter := 1, stop_check_iter := 2\<rparr>) 0 [Fin 0] [Fin 0] [Fin 0]
       = Some (Commit [Fin 0] [Fin (- (1 / 10))] [Fin 1])
   \<and> solveQP sysvx_small qp_box (default_params\<lparr>max_iter := 1, stop_check_iter := 2\<rparr>) None
       = Some (Inr \<lparr>code = MaxIterations, primal = [Fin 0], dual = [Fin (- (1 / 10))]\<rparr>)"
proof -
  let ?prm = "default_params\<lparr>max_iter := 1, stop_check_iter := 2\<rparr>"
  let ?ldlt = "LDLTLapack_init sysvx_small (kkt_H qp_box ?prm)"
  have pre: "preflight qp_box = Inr False"
    and fac: "info ?ldlt = 0"
    by (simp_all add: eval_defs)
  have cap: "unat (max_iter ?prm) < 2 ^ 32"
    by (simp add: example_defs)
  have it: "admm_iter sysvx_small ?ldlt qp_box ?prm 0 [Fin 0] [Fin 0] [Fin 0]
       = Some (Commit [Fin 0] [Fin (- (1 / 10))] [Fin 1])"
    by (simp add: eval_defs)
  have init: "admm_init qp_box None = ([Fin 0], [Fin 0], [Fin 0])"
    by (simp add: admm_init_def example_defs xreal_defs)
  have one: "unat (max_iter ?prm) = 1" by (simp add: example_defs)
  have never: "\<forall>k < unat (max_iter ?prm).
           case admm_state ?ldlt qp_box ?prm k (admm_init qp_box None) of
             (xk, yk, zk) \<Rightarrow>
               \<exists>a b c. admm_iter sysvx_small ?ldlt qp_box ?prm (of_nat k) xk yk zk = Some (Commit a b c)"
    using it by (simp add: one init admm_state_def)
  have st: "admm_state ?ldlt qp_box ?prm (unat (max_iter ?prm)) (admm_init qp_box None)
            = ([Fin 0], [Fin (- (1 / 10))], [Fin 1])"
    using admm_iter_Commit[OF it] by (simp add: one init admm_state_def)
  show ?thesis
    using pre fac cap it max_iter_caps_iterations[OF pre fac cap never] st
    by simp
qed

text \<open>
  X2. With \<^verbatim>\<open>max_iter < stop_check_iter\<close> no check is due in any iteration; \<^verbatim>\<open>solveQP\<close>
  returns \<^verbatim>\<open>MaxIterations\<close> after \<^verbatim>\<open>max_iter\<close> updates when \<^verbatim>\<open>max_iter < 2^32\<close>, and
  does not return otherwise.
\<close>

theorem max_iter_below_period:
  fixes sysvx :: "'s::{zero,one,plus,minus,uminus,times,inverse,abs,ord,infinity} sysvx"
  assumes pre: "preflight pbm = Inr False"
    and fac: "info (LDLTLapack_init sysvx (kkt_H pbm prm)) = 0"
    and below: "unat (max_iter prm) < unat (stop_check_iter prm)"
  shows "solveQP sysvx pbm prm hotstart =
           (if unat (max_iter prm) < 2 ^ 32
            then Some (Inr (case admm_state (LDLTLapack_init sysvx (kkt_H pbm prm)) pbm prm
                             (unat (max_iter prm)) (admm_init pbm hotstart) of
                        (xN, yN, zN) \<Rightarrow> \<lparr>code = MaxIterations, primal = xN, dual = yN\<rparr>))
            else None)"
proof (cases "unat (max_iter prm) < 2 ^ 32")
  case True
  have "\<exists>a b c. admm_iter sysvx ldlt pbm prm (of_nat k) x y z = Some (Commit a b c)"
    if "k < unat (max_iter prm)" for k ldlt x y z
  proof -
    have "unat (of_nat k :: 32 word) = k"
      using that True by (simp add: unat_of_nat)
    then have "unat (of_nat k :: 32 word) < unat (stop_check_iter prm) - 1"
      using that below by simp
    from admm_iter_no_check[OF no_check_before_period[OF this]]
    show ?thesis by (cases "admm_update ldlt pbm prm x y z") auto
  qed
  then have "\<forall>k < unat (max_iter prm).
           case admm_state (LDLTLapack_init sysvx (kkt_H pbm prm)) pbm prm k (admm_init pbm hotstart) of
             (xk, yk, zk) \<Rightarrow>
               \<exists>a b c. admm_iter sysvx (LDLTLapack_init sysvx (kkt_H pbm prm)) pbm prm (of_nat k) xk yk zk
                         = Some (Commit a b c)"
    by (auto split: prod.splits)
  from solveQP_commits[OF pre fac True this] True show ?thesis by simp
next
  case False
  then have "2 ^ 32 \<le> unat (max_iter prm)" "2 ^ 32 < unat (stop_check_iter prm)"
    using below by simp_all
  from solveQP_diverges[OF pre fac this] False show ?thesis by simp
qed

theorem max_iter_below_period_witness:
  "preflight qp_box = Inr False
   \<and> info (LDLTLapack_init sysvx_small
        (kkt_H qp_box (default_params\<lparr>max_iter := 1\<rparr>))) = 0
   \<and> unat (max_iter (default_params\<lparr>max_iter := 1\<rparr>))
       < unat (stop_check_iter (default_params\<lparr>max_iter := 1\<rparr>))
   \<and> solveQP sysvx_small qp_box (default_params\<lparr>max_iter := 1\<rparr>) None
       = Some (Inr \<lparr>code = MaxIterations, primal = [Fin 0], dual = [Fin (- (1 / 10))]\<rparr>)"
proof -
  let ?prm = "default_params\<lparr>max_iter := 1\<rparr>"
  have pre: "preflight qp_box = Inr False"
    and fac: "info (LDLTLapack_init sysvx_small (kkt_H qp_box ?prm)) = 0"
    by (simp_all add: eval_defs)
  have below: "unat (max_iter ?prm) < unat (stop_check_iter ?prm)"
    by (simp add: example_defs)
  have st: "admm_state (LDLTLapack_init sysvx_small (kkt_H qp_box ?prm)) qp_box ?prm
              (unat (max_iter ?prm)) (admm_init qp_box None)
            = ([Fin 0], [Fin (- (1 / 10))], [Fin 1])"
    by (simp add: eval_defs admm_state_def admm_init_def)
  show ?thesis
    using pre fac below max_iter_below_period[OF pre fac below, of None] st
    by (simp add: example_defs)
qed

end
